theory Spec2Isabelle
  imports Main "HOL-Library.Word" "HOL-Library.List_Lexorder" "HOL-Library.AList"
    "HOL-Library.Multiset"
begin

chapter \<open>The program\<close>

section \<open>JavaScript strings\<close>

text \<open>
  A JavaScript string is a sequence of UTF-16 code units: \<open>length\<close>, \<open>substring\<close> and the
  default comparison of \<open>Array.prototype.sort\<close> all work on code units. Lists are ordered
  lexicographically (a proper prefix is smaller), which is the order of \<open>sort()\<close> on strings.
  \<open>js\<close> embeds an ASCII literal.
\<close>

type_synonym jsstring = "16 word list"

definition js :: "string \<Rightarrow> jsstring" where
  "js s = map (\<lambda>c. of_nat (of_char c)) s"

text \<open>An optional string argument or field: \<open>None\<close> is \<open>undefined\<close>. Truthiness as in
  \<open>if (reason)\<close>: the value is there and is not the empty string.\<close>

fun truthy :: "jsstring option \<Rightarrow> bool" where
  "truthy None = False"
| "truthy (Some s) = (s \<noteq> [])"

section \<open>Mentor change requests (dataServices: MentorshipService)\<close>

text \<open>
  A value handed to the document store. \<open>FUndefined\<close> is the absence marker that the store
  refuses (\<open>Unsupported field value: undefined\<close>); \<open>FNull\<close> is an explicit \<open>null\<close>. A write
  payload is an object: field names with their values, in insertion order. Assigning a
  property is \<open>AList.update\<close> (overwrite in place, or append a new key).
\<close>

datatype fsvalue = FString jsstring | FTimestamp int | FNull | FUndefined

type_synonym doc = "(string \<times> fsvalue) list"

definition keys :: "doc \<Rightarrow> string set" where
  "keys d = fst ` set d"

text \<open>A fetched user, with the fields that \<open>requestMentorChange\<close> reads. A field that the
  user's document does not have is \<open>None\<close>: reading it gives \<open>undefined\<close>.\<close>

record user =
  name :: "jsstring option"
  email :: "jsstring option"

definition valueOf :: "jsstring option \<Rightarrow> fsvalue" where
  "valueOf v = (case v of Some s \<Rightarrow> FString s | None \<Rightarrow> FUndefined)"

text \<open>\<open>if (v) { data.k = v; }\<close>\<close>

fun assignIfTruthy :: "string \<Rightarrow> jsstring option \<Rightarrow> doc \<Rightarrow> doc" where
  "assignIfTruthy k None d = d"
| "assignIfTruthy k (Some v) d = (if v \<noteq> [] then AList.update k (FString v) d else d)"

text \<open>
  The \<open>requestData\<close> object of \<open>requestMentorChange\<close>. \<open>student\<close>, \<open>requestedMentor\<close> and
  \<open>currentMentor\<close> are the user records fetched before (\<open>currentMentor\<close> is \<open>None\<close> when
  there is none, so \<open>currentMentor?.name\<close> is \<open>Option.bind currentMentor name\<close>); \<open>now\<close> is
  \<open>new Date()\<close> in milliseconds. The names and the email of the student and of the
  requested mentor are copied as they are read, without a guard.
\<close>

definition requestData ::
  "jsstring \<Rightarrow> user \<Rightarrow> jsstring \<Rightarrow> user \<Rightarrow> jsstring option \<Rightarrow> user option \<Rightarrow>
   jsstring option \<Rightarrow> int \<Rightarrow> doc" where
  "requestData studentId student requestedMentorId requestedMentor currentMentorId
     currentMentor reason now =
   assignIfTruthy ''reason'' reason
    (assignIfTruthy ''current_mentor_name'' (Option.bind currentMentor name)
      (assignIfTruthy ''current_mentor_id'' currentMentorId
        [(''student_id'', FString studentId),
         (''student_name'', valueOf (name student)),
         (''student_email'', valueOf (email student)),
         (''requested_mentor_id'', FString requestedMentorId),
         (''requested_mentor_name'', valueOf (name requestedMentor)),
         (''status'', FString (js ''pending'')),
         (''created_at'', FTimestamp now)]))"

text \<open>The \<open>updateData\<close> object of \<open>approveMentorRequest\<close>.\<close>

definition updateData :: "jsstring \<Rightarrow> jsstring option \<Rightarrow> int \<Rightarrow> doc" where
  "updateData adminId adminNotes now =
   assignIfTruthy ''admin_notes'' adminNotes
     [(''status'', FString (js ''approved'')),
      (''reviewed_at'', FTimestamp now),
      (''reviewed_by'', FString adminId)]"

text \<open>A stored document is a map of its fields (their order means nothing). Reading a
  field of a fetched document, as in \<open>request.requested_mentor_id\<close>, gives \<open>undefined\<close>
  when the document has no such field.\<close>

type_synonym stored = "string \<rightharpoonup> fsvalue"

definition field :: "stored \<Rightarrow> string \<Rightarrow> fsvalue" where
  "field d k = (case d k of Some v \<Rightarrow> v | None \<Rightarrow> FUndefined)"

text \<open>The two payloads of \<open>UserService.updateUser\<close>: approve assigns the mentor and clears
  the pending pointer with the empty string, reject only clears the pending pointer.\<close>

definition approveUserData :: "stored \<Rightarrow> doc" where
  "approveUserData request =
     [(''mentor_id'', field request ''requested_mentor_id''),
      (''pending_mentor_id'', FString [])]"

definition rejectUserData :: doc where
  "rejectUserData = [(''pending_mentor_id'', FString [])]"

subsection \<open>The request lifecycle\<close>

datatype lifecycle_error = ValidationError | InvalidStateError | StoreError

record store =
  requests :: "jsstring \<rightharpoonup> stored"
  users :: "jsstring \<rightharpoonup> stored"

text \<open>
  Modelled from the spec: the store's update of one document (the store client is an
  external collaborator, and \<open>UserService.updateUser\<close> is not among the sources). The
  given fields are merged into the stored document; the whole write fails when a field
  is an absence marker, or when there is no document to update.
\<close>

definition updateDoc ::
  "(jsstring \<rightharpoonup> stored) \<Rightarrow> jsstring \<Rightarrow> doc \<Rightarrow>
   lifecycle_error + (jsstring \<rightharpoonup> stored)" where
  "updateDoc coll docId data =
     (case coll docId of
        None \<Rightarrow> Inl StoreError
      | Some d \<Rightarrow>
          if FUndefined \<in> snd ` set data then Inl StoreError
          else Inr (coll(docId \<mapsto> d ++ map_of data)))"

text \<open>Modelled from the spec: \<open>UserService.updateUser\<close> (not among the sources) updates the
  document of the user in the collection of users.\<close>

definition updateUser :: "jsstring \<Rightarrow> doc \<Rightarrow> store \<Rightarrow> lifecycle_error + store" where
  "updateUser userId data s =
     (case updateDoc (users s) userId data of
        Inl e \<Rightarrow> Inl e
      | Inr us \<Rightarrow> Inr (s\<lparr>users := us\<rparr>))"

text \<open>
  Modelled from the spec: the update of a rejected request (the sources show the
  \<open>updateData\<close> of approval only): status \<open>rejected\<close>, the reviewer metadata as for
  approval, the notes only when non-empty.
\<close>

definition rejectData :: "jsstring \<Rightarrow> jsstring option \<Rightarrow> int \<Rightarrow> doc" where
  "rejectData adminId adminNotes now =
   assignIfTruthy ''admin_notes'' adminNotes
     [(''status'', FString (js ''rejected'')),
      (''reviewed_at'', FTimestamp now),
      (''reviewed_by'', FString adminId)]"

text \<open>
  Modelled from the spec: the body of \<open>approveMentorRequest\<close> and \<open>rejectMentorRequest\<close>
  around the payloads above (the file \<open>dataServices.ts\<close> is not among the sources). The
  request must exist and be pending, otherwise the operation fails with
  \<open>InvalidStateError\<close>; then the request is written, and only after that write the
  student. The two writes are not atomic: an error of the second write leaves the first
  one in the store. The result is the outcome together with the store afterwards.
\<close>

definition reviewMentorRequest ::
  "doc \<Rightarrow> (stored \<Rightarrow> doc) \<Rightarrow> jsstring \<Rightarrow> store \<Rightarrow> (lifecycle_error + unit) \<times> store" where
  "reviewMentorRequest requestUpdate userUpdate requestId s =
     (case requests s requestId of
        None \<Rightarrow> (Inl InvalidStateError, s)
      | Some request \<Rightarrow>
          if field request ''status'' \<noteq> FString (js ''pending'') then (Inl InvalidStateError, s)
          else
            (case updateDoc (requests s) requestId requestUpdate of
               Inl e \<Rightarrow> (Inl e, s)
             | Inr rs \<Rightarrow>
                 (let s1 = s\<lparr>requests := rs\<rparr> in
                  case field request ''student_id'' of
                    FString studentId \<Rightarrow>
                      (case updateUser studentId (userUpdate request) s1 of
                         Inl e \<Rightarrow> (Inl e, s1)
                       | Inr s2 \<Rightarrow> (Inr (), s2))
                  | _ \<Rightarrow> (Inl StoreError, s1))))"

text \<open>Modelled from the spec: \<open>approveMentorRequest\<close> is the review with the \<open>updateData\<close> and
  the user payload of approval, both as the sources show them.\<close>

definition approveMentorRequest ::
  "jsstring \<Rightarrow> jsstring \<Rightarrow> jsstring option \<Rightarrow> int \<Rightarrow> store \<Rightarrow> (lifecycle_error + unit) \<times> store" where
  "approveMentorRequest requestId adminId adminNotes now s =
     reviewMentorRequest (updateData adminId adminNotes now) approveUserData requestId s"

text \<open>Modelled from the spec: \<open>rejectMentorRequest\<close> is the review with the update of
  rejection and the user payload of rejection (the latter as the sources show it).\<close>

definition rejectMentorRequest ::
  "jsstring \<Rightarrow> jsstring \<Rightarrow> jsstring option \<Rightarrow> int \<Rightarrow> store \<Rightarrow> (lifecycle_error + unit) \<times> store" where
  "rejectMentorRequest requestId adminId adminNotes now s =
     reviewMentorRequest (rejectData adminId adminNotes now) (\<lambda>request. rejectUserData) requestId s"

text \<open>A store for the examples: one pending request of student \<open>s1\<close>, who has mentor
  \<open>m1\<close>, for mentor \<open>m2\<close>.\<close>

definition exampleStore :: store where
  "exampleStore =
     \<lparr>requests = [js ''r1'' \<mapsto>
         [''student_id'' \<mapsto> FString (js ''s1''),
          ''requested_mentor_id'' \<mapsto> FString (js ''m2''),
          ''status'' \<mapsto> FString (js ''pending'')]],
      users = [js ''s1'' \<mapsto>
         [''name'' \<mapsto> FString (js ''Asha''),
          ''mentor_id'' \<mapsto> FString (js ''m1''),
          ''pending_mentor_id'' \<mapsto> FString (js ''m2'')]]\<rparr>"

section \<open>Notification banners (MentorCampusTab)\<close>

text \<open>
  The component state \<open>successMessage\<close> and \<open>errorMessage\<close> with the two auto-clear
  effects. Time is in milliseconds. Each effect holds at most one pending timeout;
  \<open>successTimer\<close> is the time at which its callback \<open>setSuccessMessage('')\<close> is due,
  \<open>None\<close> when no timeout is pending.

  A state setter called with the current value changes nothing: no render, no effect.
  Called with another value it causes a render in which the effect that depends on the
  message runs again: first the cleanup of its previous run (\<open>clearTimeout\<close>), then its
  body, which starts a timeout when the new message is non-empty.
\<close>

record notifications =
  successMessage :: jsstring
  errorMessage :: jsstring
  successTimer :: "nat option"
  errorTimer :: "nat option"

definition setSuccessMessage :: "nat \<Rightarrow> jsstring \<Rightarrow> notifications \<Rightarrow> notifications" where
  "setSuccessMessage now msg st =
     (if msg = successMessage st then st
      else st\<lparr>successMessage := msg,
              successTimer := (if msg \<noteq> [] then Some (now + 3000) else None)\<rparr>)"

definition setErrorMessage :: "nat \<Rightarrow> jsstring \<Rightarrow> notifications \<Rightarrow> notifications" where
  "setErrorMessage now msg st =
     (if msg = errorMessage st then st
      else st\<lparr>errorMessage := msg,
              errorTimer := (if msg \<noteq> [] then Some (now + 5000) else None)\<rparr>)"

text \<open>The passing of time up to \<open>t\<close>: a timeout that is due by then has run its callback
  (at the time it was set for), and is no longer pending.\<close>

definition advance :: "nat \<Rightarrow> notifications \<Rightarrow> notifications" where
  "advance t st =
     (let st1 = (case successTimer st of
                   Some d \<Rightarrow> if d \<le> t then setSuccessMessage d [] (st\<lparr>successTimer := None\<rparr>) else st
                 | None \<Rightarrow> st)
      in case errorTimer st1 of
           Some d \<Rightarrow> if d \<le> t then setErrorMessage d [] (st1\<lparr>errorTimer := None\<rparr>) else st1
         | None \<Rightarrow> st1)"

text \<open>A history of the component: calls of the setters, each at its time.\<close>

datatype event = SetSuccess jsstring | SetError jsstring

fun step :: "notifications \<Rightarrow> nat \<times> event \<Rightarrow> notifications" where
  "step st (t, SetSuccess m) = setSuccessMessage t m (advance t st)"
| "step st (t, SetError m) = setErrorMessage t m (advance t st)"

definition run :: "(nat \<times> event) list \<Rightarrow> notifications \<Rightarrow> notifications" where
  "run evs st = foldl step st evs"

fun isSetSuccess :: "event \<Rightarrow> bool" where
  "isSetSuccess (SetSuccess m) = True"
| "isSetSuccess (SetError m) = False"

fun isSetError :: "event \<Rightarrow> bool" where
  "isSetError (SetError m) = True"
| "isSetError (SetSuccess m) = False"

text \<open>The state before any message.\<close>

definition idle :: notifications where
  "idle = \<lparr>successMessage = [], errorMessage = [], successTimer = None, errorTimer = None\<rparr>"

text \<open>For the proofs: nothing is shown, or the pending timeout is due by \<open>t\<close>.\<close>

definition successDue :: "nat \<Rightarrow> notifications \<Rightarrow> bool" where
  "successDue t st \<longleftrightarrow>
     successMessage st = [] \<or> (\<exists>d. successTimer st = Some d \<and> d \<le> t)"

definition errorDue :: "nat \<Rightarrow> notifications \<Rightarrow> bool" where
  "errorDue t st \<longleftrightarrow>
     errorMessage st = [] \<or> (\<exists>d. errorTimer st = Some d \<and> d \<le> t)"

section \<open>Attendance reporters (daily goal report, daily reflection report)\<close>

subsection \<open>Numbers and dates as strings\<close>

datatype js_error = Error (message: jsstring)

text \<open>The decimal digits of a number, as template literals and \<open>String\<close> print it.\<close>

fun showNat :: "nat \<Rightarrow> jsstring" where
  "showNat n =
     (if n < 10 then [of_nat (48 + n)] else showNat (n div 10) @ [of_nat (48 + n mod 10)])"

declare showNat.simps [simp del]

definition showInt :: "int \<Rightarrow> jsstring" where
  "showInt i = (if i < 0 then 45 # showNat (nat (- i)) else showNat (nat i))"

text \<open>\<open>s.padStart(n, c)\<close> for a single pad character \<open>c\<close>.\<close>

definition padStart :: "nat \<Rightarrow> 16 word \<Rightarrow> jsstring \<Rightarrow> jsstring" where
  "padStart n c s = replicate (n - length s) c @ s"

text \<open>
  The \<open>Date\<close> object is part of the language, not of the sources; it is modelled as far
  as the reporters use it. A time value is a number of milliseconds since 1970-01-01 UTC.
  \<open>civilFromDays\<close> is the date (year, month 1 to 12, day of the month) of a day number in
  the proleptic Gregorian calendar, \<open>daysFromCivil\<close> is its inverse. \<open>utcDate t\<close> is
  \<open>(getUTCFullYear(), getUTCMonth() + 1, getUTCDate())\<close> of the time value \<open>t\<close>.
\<close>

definition civilFromDays :: "int \<Rightarrow> int \<times> int \<times> int" where
  "civilFromDays z0 =
     (let z = z0 + 719468;
          era = z div 146097;
          doe = z mod 146097;
          yoe = (doe - doe div 1460 + doe div 36524 - doe div 146096) div 365;
          y = yoe + era * 400;
          doy = doe - (365 * yoe + yoe div 4 - yoe div 100);
          mp = (5 * doy + 2) div 153;
          d = doy - (153 * mp + 2) div 5 + 1;
          m = (if mp < 10 then mp + 3 else mp - 9)
      in (if m \<le> 2 then y + 1 else y, m, d))"

definition daysFromCivil :: "int \<Rightarrow> int \<Rightarrow> int \<Rightarrow> int" where
  "daysFromCivil y0 m d =
     (let y = (if m \<le> 2 then y0 - 1 else y0);
          era = y div 400;
          yoe = y mod 400;
          doy = (153 * (if m > 2 then m - 3 else m + 9) + 2) div 5 + d - 1;
          doe = yoe * 365 + yoe div 4 - yoe div 100 + doy
      in era * 146097 + doe - 719468)"

definition utcDate :: "int \<Rightarrow> int \<times> int \<times> int" where
  "utcDate t = civilFromDays (t div 86400000)"

text \<open>\<open>getTodayDateIST\<close>; \<open>now\<close> is the time value of \<open>new Date()\<close>.\<close>

definition getTodayDateIST :: "int \<Rightarrow> jsstring" where
  "getTodayDateIST now =
     (let istOffset = 19800000;
          istDate = now + istOffset;
          (year, month, day) = utcDate istDate
      in showInt year @ js ''-'' @ padStart 2 48 (showInt month) @ js ''-''
           @ padStart 2 48 (showInt day))"

text \<open>
  \<open>new Date(s)\<close> for the two shapes of string that the reporters pass: the date-only form
  \<open>YYYY-MM-DD\<close> is read as UTC midnight of that date, the date-time form
  \<open>YYYY-MM-DDTHH:mm:ss\<close> without a zone is read as local time. \<open>tzOffset\<close> is the offset of
  the local time zone of the process from UTC, in milliseconds (19800000 in India, 0 on a
  machine that runs on UTC). The result is the time value, \<open>None\<close> for an invalid date
  (the model makes every other shape of string an invalid date).
\<close>

fun parseDigits :: "jsstring \<Rightarrow> nat \<Rightarrow> nat option" where
  "parseDigits [] acc = Some acc"
| "parseDigits (c # cs) acc =
     (if 48 \<le> c \<and> c \<le> 57 then parseDigits cs (10 * acc + (unat c - 48)) else None)"

definition parseDatePart :: "jsstring \<Rightarrow> int option" where
  "parseDatePart s =
     (if length s = 10 \<and> s ! 4 = 45 \<and> s ! 7 = 45 then
        (case (parseDigits (take 4 s) 0, parseDigits (take 2 (drop 5 s)) 0,
               parseDigits (drop 8 s) 0) of
           (Some y, Some m, Some d) \<Rightarrow>
             (let z = daysFromCivil (int y) (int m) (int d)
              in if civilFromDays z = (int y, int m, int d) then Some z else None)
         | _ \<Rightarrow> None)
      else None)"

definition parseTimePart :: "jsstring \<Rightarrow> int option" where
  "parseTimePart s =
     (if length s = 8 \<and> s ! 2 = 58 \<and> s ! 5 = 58 then
        (case (parseDigits (take 2 s) 0, parseDigits (take 2 (drop 3 s)) 0,
               parseDigits (drop 6 s) 0) of
           (Some h, Some mi, Some se) \<Rightarrow>
             if h < 24 \<and> mi < 60 \<and> se < 60
             then Some (((int h * 60 + int mi) * 60 + int se) * 1000) else None
         | _ \<Rightarrow> None)
      else None)"

definition dateFromString :: "int \<Rightarrow> jsstring \<Rightarrow> int option" where
  "dateFromString tzOffset s =
     (if length s = 10 then map_option (\<lambda>z. z * 86400000) (parseDatePart s)
      else if length s = 19 \<and> s ! 10 = 84 then
        (case (parseDatePart (take 10 s), parseTimePart (drop 11 s)) of
           (Some z, Some t) \<Rightarrow> Some (z * 86400000 + t - tzOffset)
         | _ \<Rightarrow> None)
      else None)"

subsection \<open>The world of one run\<close>

text \<open>The documents of the collections \<open>users\<close>, \<open>daily_goals\<close> and \<open>daily_reflections\<close>, with
  the fields the reporters read. A field that a document does not have is \<open>None\<close>.
  \<open>created_at\<close> is a timestamp, given as a time value.\<close>

record user_doc =
  doc_id :: jsstring
  u_role :: "jsstring option"
  u_name :: "jsstring option"
  u_email :: "jsstring option"
  u_campus :: "jsstring option"
  u_house :: "jsstring option"

record submission =
  student_id :: "jsstring option"
  created_at :: "int option"

text \<open>A webhook message: \<open>{ embeds: [embed] }\<close>. The list \<open>fields\<close> of an embed is
  \<open>efields\<close> here, \<open>name\<close> and \<open>value\<close> of a field are \<open>fname\<close> and \<open>fvalue\<close>.\<close>

record embed_field =
  fname :: jsstring
  fvalue :: jsstring
  inline :: bool

record embed =
  title :: jsstring
  description :: jsstring
  color :: nat
  timestamp :: jsstring
  efields :: "embed_field list"
  footer :: jsstring

type_synonym payload = "embed list"

text \<open>What the transport does with one request: a response with its status code, or an
  error of the request.\<close>

datatype http_outcome = Response nat | RequestError js_error

text \<open>
  Everything outside the script that one run depends on: the clock when \<open>getTodayDateIST\<close>
  reads it, the time zone of the process, the \<open>toISOString()\<close> of the clock when the report
  and when the error message is built, what reading each collection gives (its documents,
  or the error thrown), the error that the store client throws for an invalid date, and
  what the webhook answers to the \<open>k\<close>-th post of the run.
\<close>

record world =
  clock :: int
  tzOffset :: int
  isoTimestamp :: jsstring
  errorTimestamp :: jsstring
  usersCollection :: "js_error + user_doc list"
  goalsCollection :: "js_error + submission list"
  reflectionsCollection :: "js_error + submission list"
  timestampError :: js_error
  webhook :: "nat \<Rightarrow> payload \<Rightarrow> http_outcome"

text \<open>
  The percentage is computed in floating point,
  \<open>((presentCount / totalCount) * 100).toFixed(1)\<close>, and the reflections reporter compares
  the resulting string with numbers (\<open>attendancePercentage >= 90\<close>). Both are parameters
  of the model: \<open>toFixed1 p t\<close> is the string for \<open>presentCount = p\<close> and \<open>totalCount = t\<close>,
  and \<open>atLeast s k\<close> is the comparison \<open>s >= k\<close>.
\<close>

record float_ops =
  toFixed1 :: "nat \<Rightarrow> nat \<Rightarrow> jsstring"
  atLeast :: "jsstring \<Rightarrow> nat \<Rightarrow> bool"

subsection \<open>Fetching\<close>

text \<open>\<open>v || d\<close> for an optional string \<open>v\<close>.\<close>

definition orElse :: "jsstring option \<Rightarrow> jsstring \<Rightarrow> jsstring" where
  "orElse v d = (case v of Some s \<Rightarrow> if s \<noteq> [] then s else d | None \<Rightarrow> d)"

record student =
  st_id :: jsstring
  st_name :: jsstring
  st_email :: jsstring
  st_campus :: jsstring
  st_house :: jsstring

text \<open>\<open>getAllStudents\<close> of the goal reporter.\<close>

definition getAllStudents :: "world \<Rightarrow> js_error + student list" where
  "getAllStudents w =
     (case usersCollection w of
        Inl e \<Rightarrow> Inl e
      | Inr docs \<Rightarrow>
          Inr (map (\<lambda>d. \<lparr>st_id = doc_id d,
                          st_name = orElse (u_name d) (js ''Unknown''),
                          st_email = orElse (u_email d) [],
                          st_campus = orElse (u_campus d) [],
                          st_house = orElse (u_house d) []\<rparr>)
                 (filter (\<lambda>d. u_role d = Some (js ''student'')) docs)))"

text \<open>\<open>getAllStudents\<close> of the reflections reporter: identifier and name only.\<close>

definition getAllStudentsR :: "world \<Rightarrow> js_error + (jsstring \<times> jsstring) list" where
  "getAllStudentsR w =
     (case usersCollection w of
        Inl e \<Rightarrow> Inl e
      | Inr docs \<Rightarrow>
          Inr (map (\<lambda>d. (doc_id d, orElse (u_name d) (js ''Unknown'')))
                 (filter (\<lambda>d. u_role d = Some (js ''student'')) docs)))"

text \<open>The range query \<open>created_at >= a\<close>, \<open>created_at < b\<close>; a document without the field
  does not match.\<close>

definition inRange :: "int \<Rightarrow> int \<Rightarrow> submission \<Rightarrow> bool" where
  "inRange a b d = (case created_at d of Some t \<Rightarrow> a \<le> t \<and> t < b | None \<Rightarrow> False)"

text \<open>The \<open>Set\<close> of student identifiers, filled by \<open>forEach\<close> over the documents found: a
  list without repetitions (\<open>has\<close> is membership, \<open>size\<close> is the length).\<close>

fun collectIds :: "submission list \<Rightarrow> jsstring list \<Rightarrow> jsstring list" where
  "collectIds [] acc = acc"
| "collectIds (d # ds) acc =
     collectIds ds
       (case student_id d of
          Some i \<Rightarrow> if i \<noteq> [] then List.insert i acc else acc
        | None \<Rightarrow> acc)"

text \<open>\<open>getStudentsWithGoalsToday\<close> and \<open>getStudentsWithReflectionsToday\<close> are the same
  function on two collections.\<close>

definition getStudentsWithSubmissionsToday ::
  "world \<Rightarrow> (js_error + submission list) \<Rightarrow> jsstring \<Rightarrow> js_error + jsstring list" where
  "getStudentsWithSubmissionsToday w collection todayDate =
     (case (dateFromString (tzOffset w) todayDate,
            dateFromString (tzOffset w) (todayDate @ js ''T23:59:59'')) of
        (Some a, Some b) \<Rightarrow>
          (case collection of
             Inl e \<Rightarrow> Inl e
           | Inr docs \<Rightarrow> Inr (collectIds (filter (inRange a b) docs) []))
      | _ \<Rightarrow> Inl (timestampError w))"

definition getStudentsWithGoalsToday :: "world \<Rightarrow> jsstring \<Rightarrow> js_error + jsstring list" where
  "getStudentsWithGoalsToday w todayDate =
     getStudentsWithSubmissionsToday w (goalsCollection w) todayDate"

definition getStudentsWithReflectionsToday ::
  "world \<Rightarrow> jsstring \<Rightarrow> js_error + jsstring list" where
  "getStudentsWithReflectionsToday w todayDate =
     getStudentsWithSubmissionsToday w (reflectionsCollection w) todayDate"

subsection \<open>Posting\<close>

text \<open>\<open>sendDiscordNotification\<close>, given what the transport did with the request: the
  promise resolves (\<open>Inr\<close>) or rejects with an error (\<open>Inl\<close>).\<close>

definition sendDiscordNotification :: "http_outcome \<Rightarrow> js_error + unit" where
  "sendDiscordNotification outcome =
     (case outcome of
        Response statusCode \<Rightarrow>
          if statusCode = 204 \<or> statusCode = 200 then Inr ()
          else Inl (Error (js ''Discord API error: '' @ showNat statusCode))
      | RequestError e \<Rightarrow> Inl e)"

subsection \<open>The goal reporter\<close>

fun joinWith :: "jsstring \<Rightarrow> jsstring list \<Rightarrow> jsstring" where
  "joinWith sep [] = []"
| "joinWith sep [x] = x"
| "joinWith sep (x # y # ys) = x @ sep @ joinWith sep (y # ys)"

definition presentStudents :: "student list \<Rightarrow> jsstring list \<Rightarrow> student list" where
  "presentStudents allStudents studentIdsWithGoals =
     filter (\<lambda>s. st_id s \<in> set studentIdsWithGoals) allStudents"

definition absentStudents :: "student list \<Rightarrow> jsstring list \<Rightarrow> student list" where
  "absentStudents allStudents studentIdsWithGoals =
     filter (\<lambda>s. st_id s \<notin> set studentIdsWithGoals) allStudents"

definition sortedAbsentNames :: "student list \<Rightarrow> jsstring list" where
  "sortedAbsentNames absent = sort (map st_name absent)"

definition absentNames :: "student list \<Rightarrow> jsstring" where
  "absentNames absent = joinWith (js '', '') (sortedAbsentNames absent)"

definition absentField :: "student list \<Rightarrow> embed_field" where
  "absentField absent =
     (if length absent > 0 then
        \<lparr>fname = [0xD83D, 0xDC65] @ js '' Absent Students'',
         fvalue = (if length (absentNames absent) > 1000
                   then take 997 (absentNames absent) @ js ''...''
                   else absentNames absent),
         inline = False\<rparr>
      else
        \<lparr>fname = [0xD83C, 0xDF89] @ js '' Perfect Attendance!'',
         fvalue = js ''All students have submitted their goals today!'',
         inline = False\<rparr>)"

definition goalEmbed ::
  "float_ops \<Rightarrow> jsstring \<Rightarrow> jsstring \<Rightarrow> student list \<Rightarrow> student list \<Rightarrow> nat \<Rightarrow> embed" where
  "goalEmbed fo todayDate isoNow present absent totalCount =
     (let presentCount = length present;
          absentCount = length absent;
          attendancePercentage = toFixed1 fo presentCount totalCount
      in \<lparr>title = [0xD83C, 0xDF05] @ js '' Morning Attendance'',
          description = js ''Attendance report for **'' @ todayDate @ js ''**'',
          color = (if presentCount > absentCount then 65280 else 16776960),
          timestamp = isoNow,
          efields =
            [\<lparr>fname = [0x2705] @ js '' Present'',
              fvalue = js ''**'' @ showNat presentCount @ js ''** students'',
              inline = True\<rparr>,
             \<lparr>fname = [0x274C] @ js '' Absent'',
              fvalue = js ''**'' @ showNat absentCount @ js ''** students'',
              inline = True\<rparr>,
             \<lparr>fname = [0xD83D, 0xDCC8] @ js '' Attendance Rate'',
              fvalue = js ''**'' @ attendancePercentage @ js ''%**'',
              inline = True\<rparr>,
             absentField absent],
          footer = js ''Campus Learning Dashboard - Daily Report''\<rparr>)"

text \<open>The message of the \<open>catch\<close> block; \<open>title\<close> and \<open>description\<close> differ between the
  two reporters.\<close>

definition errorEmbed :: "jsstring \<Rightarrow> jsstring \<Rightarrow> js_error \<Rightarrow> jsstring \<Rightarrow> embed" where
  "errorEmbed ttl descr error isoNow =
     \<lparr>title = ttl,
      description = descr,
      color = 16711680,
      timestamp = isoNow,
      efields = [\<lparr>fname = js ''Error'', fvalue = take 1000 (message error), inline = False\<rparr>],
      footer = js ''Campus Learning Dashboard - Error Report''\<rparr>"

text \<open>
  The outcome of one run: the exit status, the messages posted to the webhook in their
  order (every call of \<open>sendDiscordNotification\<close>, answered or not), and what
  \<open>console.error\<close> has written about failures.
\<close>

datatype log_entry = ReportError js_error | NotificationError jsstring

record outcome =
  exitCode :: nat
  posts :: "payload list"
  errorLog :: "log_entry list"

text \<open>The \<open>try\<close> block of \<open>main\<close>: the messages it has posted, with \<open>Inr\<close> of the exit status
  it ends the process with, or \<open>Inl\<close> of the error it throws.\<close>

definition tryGoals :: "float_ops \<Rightarrow> world \<Rightarrow> (js_error + nat) \<times> payload list" where
  "tryGoals fo w =
     (let todayDate = getTodayDateIST (clock w) in
      case getAllStudents w of
        Inl e \<Rightarrow> (Inl e, [])
      | Inr allStudents \<Rightarrow>
          if length allStudents = 0 then (Inr 0, [])
          else
            (case getStudentsWithGoalsToday w todayDate of
               Inl e \<Rightarrow> (Inl e, [])
             | Inr studentIdsWithGoals \<Rightarrow>
                 (let present = presentStudents allStudents studentIdsWithGoals;
                      absent = absentStudents allStudents studentIdsWithGoals;
                      totalCount = length allStudents;
                      msg = [goalEmbed fo todayDate (isoTimestamp w) present absent totalCount]
                  in case sendDiscordNotification (webhook w 0 msg) of
                       Inl e \<Rightarrow> (Inl e, [msg])
                     | Inr u \<Rightarrow> (Inr 0, [msg]))))"

text \<open>The \<open>catch\<close> block: one post of the error message, whose own failure is logged and
  nothing more, then exit status 1.\<close>

definition catchBlock ::
  "jsstring \<Rightarrow> jsstring \<Rightarrow> world \<Rightarrow> js_error \<Rightarrow> payload list \<Rightarrow> outcome" where
  "catchBlock ttl descr w error posted =
     (let msg = [errorEmbed ttl descr error (errorTimestamp w)]
      in \<lparr>exitCode = 1,
          posts = posted @ [msg],
          errorLog =
            ReportError error #
            (case sendDiscordNotification (webhook w (length posted) msg) of
               Inl notifError \<Rightarrow> [NotificationError (message notifError)]
             | Inr u \<Rightarrow> [])\<rparr>)"

definition mainGoals :: "float_ops \<Rightarrow> world \<Rightarrow> outcome" where
  "mainGoals fo w =
     (case tryGoals fo w of
        (Inr status, posted) \<Rightarrow> \<lparr>exitCode = status, posts = posted, errorLog = []\<rparr>
      | (Inl error, posted) \<Rightarrow>
          catchBlock ([0x274C] @ js '' Daily Report Failed'')
            (js ''An error occurred while generating the daily goal attendance report.'')
            w error posted)"

subsection \<open>The reflections reporter\<close>

definition motivation :: "float_ops \<Rightarrow> nat \<Rightarrow> nat \<Rightarrow> jsstring \<Rightarrow> embed_field" where
  "motivation fo presentCount totalCount attendancePercentage =
     (if presentCount = totalCount then
        \<lparr>fname = [0xD83C, 0xDF89] @ js '' Perfect Day!'',
         fvalue = js ''All students completed both goals AND reflections today!'',
         inline = False\<rparr>
      else if atLeast fo attendancePercentage 90 then
        \<lparr>fname = [0xD83D, 0xDCAA] @ js '' Excellent Work!'',
         fvalue = js ''Outstanding completion rate today!'',
         inline = False\<rparr>
      else if atLeast fo attendancePercentage 75 then
        \<lparr>fname = [0xD83D, 0xDC4D] @ js '' Good Progress'',
         fvalue = js ''Keep up the momentum!'',
         inline = False\<rparr>
      else if atLeast fo attendancePercentage 50 then
        \<lparr>fname = [0xD83D, 0xDCDD] @ js '' Reminder'',
         fvalue = js ''Encourage students to complete their reflections before day end.'',
         inline = False\<rparr>
      else
        \<lparr>fname = [0x26A0, 0xFE0F] @ js '' Low Completion'',
         fvalue = js ''Many students haven't submitted reflections yet. Consider sending reminders.'',
         inline = False\<rparr>)"

definition reflectionEmbed :: "float_ops \<Rightarrow> jsstring \<Rightarrow> jsstring \<Rightarrow> nat \<Rightarrow> nat \<Rightarrow> embed" where
  "reflectionEmbed fo todayDate isoNow presentCount totalCount =
     (let absentCount = int totalCount - int presentCount;
          attendancePercentage = toFixed1 fo presentCount totalCount
      in \<lparr>title = [0xD83C, 0xDF19] @ js '' Evening Attendance'',
          description = js ''Attendance report for **'' @ todayDate @ js ''**'',
          color = (if int presentCount > absentCount then 5763719 else 15844367),
          timestamp = isoNow,
          efields =
            [\<lparr>fname = [0x2705] @ js '' Present'',
              fvalue = js ''**'' @ showNat presentCount @ js ''** students'',
              inline = True\<rparr>,
             \<lparr>fname = [0x274C] @ js '' Absent'',
              fvalue = js ''**'' @ showInt absentCount @ js ''** students'',
              inline = True\<rparr>,
             \<lparr>fname = [0xD83D, 0xDCC8] @ js '' Completion Rate'',
              fvalue = js ''**'' @ attendancePercentage @ js ''%**'',
              inline = True\<rparr>,
             motivation fo presentCount totalCount attendancePercentage],
          footer = js ''Campus Learning Dashboard - Evening Report''\<rparr>)"

definition tryReflections :: "float_ops \<Rightarrow> world \<Rightarrow> (js_error + nat) \<times> payload list" where
  "tryReflections fo w =
     (let todayDate = getTodayDateIST (clock w) in
      case getAllStudentsR w of
        Inl e \<Rightarrow> (Inl e, [])
      | Inr allStudents \<Rightarrow>
          if length allStudents = 0 then (Inr 0, [])
          else
            (case getStudentsWithReflectionsToday w todayDate of
               Inl e \<Rightarrow> (Inl e, [])
             | Inr studentIdsWithReflections \<Rightarrow>
                 (let presentCount = length studentIdsWithReflections;
                      totalCount = length allStudents;
                      msg = [reflectionEmbed fo todayDate (isoTimestamp w) presentCount totalCount]
                  in case sendDiscordNotification (webhook w 0 msg) of
                       Inl e \<Rightarrow> (Inl e, [msg])
                     | Inr u \<Rightarrow> (Inr 0, [msg]))))"

definition mainReflections :: "float_ops \<Rightarrow> world \<Rightarrow> outcome" where
  "mainReflections fo w =
     (case tryReflections fo w of
        (Inr status, posted) \<Rightarrow> \<lparr>exitCode = status, posts = posted, errorLog = []\<rparr>
      | (Inl error, posted) \<Rightarrow>
          catchBlock ([0x274C] @ js '' Evening Report Failed'')
            (js ''An error occurred while generating the reflection attendance report.'')
            w error posted)"

subsection \<open>Example data\<close>

text \<open>
  A run of 2025-11-11 at 03:50 UTC (09:20 in India) on a machine that runs on UTC. There
  are four students and a mentor. Ravi has submitted a goal at 02:00 UTC (07:30 in
  India), Asha at 19:00 UTC of the day before, which is 00:30 of 2025-11-11 in India;
  amit and Zoya have submitted nothing. The float operations are given at the numbers of
  the example only: one of four is \<open>25.0\<close> percent.
\<close>

definition exampleUsers :: "user_doc list" where
  "exampleUsers =
     [\<lparr>doc_id = js ''s1'', u_role = Some (js ''student''), u_name = Some (js ''Ravi''),
       u_email = None, u_campus = Some (js ''Pune''), u_house = None\<rparr>,
      \<lparr>doc_id = js ''s2'', u_role = Some (js ''student''), u_name = Some (js ''Asha''),
       u_email = None, u_campus = None, u_house = None\<rparr>,
      \<lparr>doc_id = js ''m1'', u_role = Some (js ''mentor''), u_name = Some (js ''Mira''),
       u_email = None, u_campus = None, u_house = None\<rparr>,
      \<lparr>doc_id = js ''s3'', u_role = Some (js ''student''), u_name = Some (js ''amit''),
       u_email = None, u_campus = None, u_house = None\<rparr>,
      \<lparr>doc_id = js ''s4'', u_role = Some (js ''student''), u_name = Some (js ''Zoya''),
       u_email = None, u_campus = None, u_house = None\<rparr>]"

definition exampleGoals :: "submission list" where
  "exampleGoals =
     [\<lparr>student_id = Some (js ''s1''), created_at = Some 1762826400000\<rparr>,
      \<lparr>student_id = Some (js ''s2''), created_at = Some 1762801200000\<rparr>]"

definition exampleWorld :: world where
  "exampleWorld =
     \<lparr>clock = 1762833000000,
      tzOffset = 0,
      isoTimestamp = js ''2025-11-11T03:50:01.000Z'',
      errorTimestamp = js ''2025-11-11T03:50:02.000Z'',
      usersCollection = Inr exampleUsers,
      goalsCollection = Inr exampleGoals,
      reflectionsCollection = Inr [],
      timestampError = Error (js ''Invalid date''),
      webhook = (\<lambda>k msg. Response 204)\<rparr>"

definition exampleOps :: float_ops where
  "exampleOps = \<lparr>toFixed1 = (\<lambda>p t. js ''25.0''), atLeast = (\<lambda>s k. k \<le> 25)\<rparr>"

definition mkStudent :: "jsstring \<Rightarrow> jsstring \<Rightarrow> student" where
  "mkStudent i n = \<lparr>st_id = i, st_name = n, st_email = [], st_campus = [], st_house = []\<rparr>"

chapter \<open>Properties\<close>

section \<open>Mentor change requests\<close>

subsection \<open>Omission of unset optional fields\<close>

lemma keys_assignIfTruthy:
  "keys (assignIfTruthy k v d) = (if truthy v then insert k (keys d) else keys d)"
  by (cases v) (simp_all add: keys_def dom_update)

lemma map_of_assignIfTruthy:
  "map_of (assignIfTruthy k v d) =
     (if truthy v then (map_of d)(k := map_option FString v) else map_of d)"
  by (cases v) (auto simp: update_conv')

lemma values_update:
  "snd ` set (AList.update k v d) \<subseteq> insert v (snd ` set d)"
  by (induction d) auto

lemma values_assignIfTruthy:
  "snd ` set (assignIfTruthy k v d) \<subseteq> range FString \<union> snd ` set d"
proof (cases v)
  case None
  then show ?thesis by simp
next
  case (Some s)
  have "snd ` set (AList.update k (FString s) d) \<subseteq> insert (FString s) (snd ` set d)"
    by (rule values_update)
  with Some show ?thesis by auto
qed

lemma values_updateData:
  "snd ` set (updateData adminId adminNotes now) \<subseteq> range FString \<union> range FTimestamp"
proof -
  let ?base = "[(''status'', FString (js ''approved'')),
      (''reviewed_at'', FTimestamp now),
      (''reviewed_by'', FString adminId)]"
  have "snd ` set ?base \<subseteq> range FString \<union> range FTimestamp"
    by auto
  then show ?thesis
    unfolding updateData_def
    using values_assignIfTruthy [of "''admin_notes''" adminNotes ?base] by blast
qed

lemma values_rejectData:
  "snd ` set (rejectData adminId adminNotes now) \<subseteq> range FString \<union> range FTimestamp"
proof -
  let ?base = "[(''status'', FString (js ''rejected'')),
      (''reviewed_at'', FTimestamp now),
      (''reviewed_by'', FString adminId)]"
  have "snd ` set ?base \<subseteq> range FString \<union> range FTimestamp"
    by auto
  then show ?thesis
    unfolding rejectData_def
    using values_assignIfTruthy [of "''admin_notes''" adminNotes ?base] by blast
qed

lemma requestData_unguarded:
  "map_of (requestData studentId student requestedMentorId requestedMentor currentMentorId
      currentMentor reason now) ''student_email'' = Some (valueOf (email student))"
  by (simp add: requestData_def map_of_assignIfTruthy)

text \<open>
  C1. The optional fields \<open>current_mentor_id\<close>, \<open>current_mentor_name\<close> and \<open>reason\<close> of the
  record built by \<open>requestMentorChange\<close>, and \<open>admin_notes\<close> of the update built by
  \<open>approveMentorRequest\<close>, are keys of the written object exactly when the value supplied
  for them is truthy (for the mentor's name: the name of the current mentor, if there is
  one), and then they carry that value. None of these four keys ever carries \<open>undefined\<close>
  or \<open>null\<close>: an unset optional field is left out, not written as a placeholder.
\<close>

theorem optional_fields_omitted_unless_truthy:
  fixes studentId requestedMentorId adminId :: jsstring
    and student requestedMentor :: user
    and currentMentorId reason adminNotes :: "jsstring option"
    and currentMentor :: "user option"
    and now reviewedAt :: int
  defines "rd \<equiv> requestData studentId student requestedMentorId requestedMentor
                  currentMentorId currentMentor reason now"
    and "ud \<equiv> updateData adminId adminNotes reviewedAt"
  shows "(''current_mentor_id'' \<in> keys rd \<longleftrightarrow> truthy currentMentorId)
       \<and> (''current_mentor_name'' \<in> keys rd \<longleftrightarrow> truthy (Option.bind currentMentor name))
       \<and> (''reason'' \<in> keys rd \<longleftrightarrow> truthy reason)
       \<and> (''admin_notes'' \<in> keys ud \<longleftrightarrow> truthy adminNotes)
       \<and> (truthy currentMentorId \<longrightarrow>
             map_of rd ''current_mentor_id'' = map_option FString currentMentorId)
       \<and> (truthy (Option.bind currentMentor name) \<longrightarrow>
             map_of rd ''current_mentor_name''
               = map_option FString (Option.bind currentMentor name))
       \<and> (truthy reason \<longrightarrow> map_of rd ''reason'' = map_option FString reason)
       \<and> (truthy adminNotes \<longrightarrow> map_of ud ''admin_notes'' = map_option FString adminNotes)
       \<and> (\<forall>k\<in>{''current_mentor_id'', ''current_mentor_name'', ''reason''}.
             map_of rd k \<noteq> Some FUndefined \<and> map_of rd k \<noteq> Some FNull)
       \<and> map_of ud ''admin_notes'' \<noteq> Some FUndefined
       \<and> map_of ud ''admin_notes'' \<noteq> Some FNull"
proof -
  have k: "keys rd = (if truthy reason then {''reason''} else {})
      \<union> (if truthy (Option.bind currentMentor name) then {''current_mentor_name''} else {})
      \<union> (if truthy currentMentorId then {''current_mentor_id''} else {})
      \<union> {''student_id'', ''student_name'', ''student_email'', ''requested_mentor_id'',
          ''requested_mentor_name'', ''status'', ''created_at''}"
    unfolding rd_def requestData_def keys_assignIfTruthy by (auto simp: keys_def)
  have ku: "keys ud = (if truthy adminNotes then {''admin_notes''} else {})
      \<union> {''status'', ''reviewed_at'', ''reviewed_by''}"
    unfolding ud_def updateData_def keys_assignIfTruthy by (auto simp: keys_def)
  have m: "map_of rd k =
      (if k = ''reason'' \<and> truthy reason then map_option FString reason
       else if k = ''current_mentor_name'' \<and> truthy (Option.bind currentMentor name)
         then map_option FString (Option.bind currentMentor name)
       else if k = ''current_mentor_id'' \<and> truthy currentMentorId
         then map_option FString currentMentorId
       else map_of [(''student_id'', FString studentId),
         (''student_name'', valueOf (name student)),
         (''student_email'', valueOf (email student)),
         (''requested_mentor_id'', FString requestedMentorId),
         (''requested_mentor_name'', valueOf (name requestedMentor)),
         (''status'', FString (js ''pending'')),
         (''created_at'', FTimestamp now)] k)" for k
    unfolding rd_def requestData_def map_of_assignIfTruthy by simp
  have mu: "truthy adminNotes \<longrightarrow> map_of ud ''admin_notes'' = map_option FString adminNotes"
    unfolding ud_def updateData_def map_of_assignIfTruthy by simp
  have mv: "map_of ud ''admin_notes''
      = (if truthy adminNotes then map_option FString adminNotes else None)"
    unfolding ud_def updateData_def map_of_assignIfTruthy by simp
  have c1: "''current_mentor_id'' \<in> keys rd \<longleftrightarrow> truthy currentMentorId"
    and c2: "''current_mentor_name'' \<in> keys rd \<longleftrightarrow> truthy (Option.bind currentMentor name)"
    and c3: "''reason'' \<in> keys rd \<longleftrightarrow> truthy reason"
    unfolding k by simp_all
  have c4: "''admin_notes'' \<in> keys ud \<longleftrightarrow> truthy adminNotes"
    unfolding ku by simp
  have c5: "truthy currentMentorId \<longrightarrow>
      map_of rd ''current_mentor_id'' = map_option FString currentMentorId"
    and c6: "truthy (Option.bind currentMentor name) \<longrightarrow>
      map_of rd ''current_mentor_name'' = map_option FString (Option.bind currentMentor name)"
    and c7: "truthy reason \<longrightarrow> map_of rd ''reason'' = map_option FString reason"
    unfolding m by simp_all
  have o: "map_option FString v \<noteq> Some FUndefined" "map_option FString v \<noteq> Some FNull" for v
    by (cases v; simp)+
  have c8: "\<forall>k\<in>{''current_mentor_id'', ''current_mentor_name'', ''reason''}.
      map_of rd k \<noteq> Some FUndefined \<and> map_of rd k \<noteq> Some FNull"
    unfolding m by (simp add: o)
  have c9: "map_of ud ''admin_notes'' \<noteq> Some FUndefined"
    "map_of ud ''admin_notes'' \<noteq> Some FNull"
    unfolding mv by (simp_all add: o)
  from c1 c2 c3 c4 c5 c6 c7 mu c8 c9 show ?thesis
    by (intro conjI)
qed

theorem optional_fields_omitted_witness:
  "keys (requestData (js ''s1'') \<lparr>name = Some (js ''Asha''), email = Some (js ''asha@x.in'')\<rparr>
      (js ''m2'') \<lparr>name = Some (js ''Ravi''), email = None\<rparr> None None (Some []) 1000)
     = {''student_id'', ''student_name'', ''student_email'', ''requested_mentor_id'',
        ''requested_mentor_name'', ''status'', ''created_at''}
   \<and> keys (updateData (js ''a1'') None 2000) = {''status'', ''reviewed_at'', ''reviewed_by''}
   \<and> ''reason'' \<in> keys (requestData (js ''s1'')
      \<lparr>name = Some (js ''Asha''), email = Some (js ''asha@x.in'')\<rparr>
      (js ''m2'') \<lparr>name = Some (js ''Ravi''), email = None\<rparr> (Some (js ''m1''))
      (Some \<lparr>name = Some (js ''Mira''), email = None\<rparr>) (Some (js ''phase'')) 1000)
   \<and> map_of (requestData (js ''s1'')
      \<lparr>name = Some (js ''Asha''), email = Some (js ''asha@x.in'')\<rparr>
      (js ''m2'') \<lparr>name = Some (js ''Ravi''), email = None\<rparr> (Some (js ''m1''))
      (Some \<lparr>name = Some (js ''Mira''), email = None\<rparr>) (Some (js ''phase'')) 1000)
        ''current_mentor_name'' = Some (FString (js ''Mira''))
   \<and> map_of (updateData (js ''a1'') (Some (js ''ok'')) 2000) ''admin_notes''
       = Some (FString (js ''ok''))"
  using optional_fields_omitted_unless_truthy [of "js ''s1''"
      "\<lparr>name = Some (js ''Asha''), email = Some (js ''asha@x.in'')\<rparr>" "js ''m2''"
      "\<lparr>name = Some (js ''Ravi''), email = None\<rparr>" "Some (js ''m1'')"
      "Some \<lparr>name = Some (js ''Mira''), email = None\<rparr>" "Some (js ''phase'')" 1000
      "js ''a1''" "Some (js ''ok'')" 2000]
  by (simp add: requestData_def updateData_def keys_def js_def)

lemma js_pending_neq [simp]:
  "js ''approved'' \<noteq> js ''pending''" "js ''rejected'' \<noteq> js ''pending''"
  by (simp_all add: js_def)

lemma review_refused:
  assumes "requests s requestId = Some request"
    and "field request ''status'' \<noteq> FString (js ''pending'')"
  shows "reviewMentorRequest requestUpdate userUpdate requestId s = (Inl InvalidStateError, s)"
  using assms by (simp add: reviewMentorRequest_def)

lemma review_success:
  assumes "reviewMentorRequest requestUpdate userUpdate requestId s = (Inr (), s')"
  obtains request studentId u where
    "requests s requestId = Some request"
    "field request ''status'' = FString (js ''pending'')"
    "field request ''student_id'' = FString studentId"
    "users s studentId = Some u"
    "FUndefined \<notin> snd ` set requestUpdate"
    "FUndefined \<notin> snd ` set (userUpdate request)"
    "s' = s\<lparr>requests := (requests s)(requestId \<mapsto> request ++ map_of requestUpdate),
             users := (users s)(studentId \<mapsto> u ++ map_of (userUpdate request))\<rparr>"
  using assms
  by (auto simp: reviewMentorRequest_def updateUser_def updateDoc_def Let_def
      split: option.splits if_splits sum.splits fsvalue.splits)

text \<open>
  C2. A request whose status is \<open>approved\<close> or \<open>rejected\<close> is terminal: approving or
  rejecting it again fails with \<open>InvalidStateError\<close>, and the store (the request and the
  student with it) is left as it was.
\<close>

theorem terminal_request_refuses_review:
  assumes "requests s requestId = Some request"
    and "field request ''status'' = FString (js ''approved'')
       \<or> field request ''status'' = FString (js ''rejected'')"
  shows "approveMentorRequest requestId adminId adminNotes now s = (Inl InvalidStateError, s)
       \<and> rejectMentorRequest requestId adminId adminNotes now s = (Inl InvalidStateError, s)"
proof -
  from assms(2) have "field request ''status'' \<noteq> FString (js ''pending'')"
    by auto
  with assms(1) show ?thesis
    unfolding approveMentorRequest_def rejectMentorRequest_def
    by (simp add: review_refused)
qed

lemma field_map_of: "field d k \<noteq> FUndefined \<Longrightarrow> d k = Some (field d k)"
  by (auto simp: field_def split: option.splits)

text \<open>
  C3. When approving a request succeeds, the student of the request has \<open>mentor_id\<close> equal
  to the \<open>requested_mentor_id\<close> of the request (a value that is there, and not the
  absence marker) and \<open>pending_mentor_id\<close> equal to the empty string. When rejecting
  succeeds, the student's \<open>pending_mentor_id\<close> is the empty string and \<open>mentor_id\<close> is what it
  was before.
\<close>

theorem review_sets_student_pointers:
  assumes "requests s requestId = Some request"
    and "field request ''student_id'' = FString studentId"
  shows "(approveMentorRequest requestId adminId adminNotes now s = (Inr (), s') \<longrightarrow>
          (\<exists>u'. users s' studentId = Some u'
             \<and> u' ''mentor_id'' = request ''requested_mentor_id''
             \<and> u' ''mentor_id'' \<noteq> None \<and> u' ''mentor_id'' \<noteq> Some FUndefined
             \<and> u' ''pending_mentor_id'' = Some (FString [])))
       \<and> (rejectMentorRequest requestId adminId adminNotes now s = (Inr (), s') \<longrightarrow>
          (\<exists>u u'. users s studentId = Some u \<and> users s' studentId = Some u'
             \<and> u' ''mentor_id'' = u ''mentor_id''
             \<and> u' ''pending_mentor_id'' = Some (FString [])))"
proof (intro conjI impI)
  assume "approveMentorRequest requestId adminId adminNotes now s = (Inr (), s')"
  then obtain request' studentId' u where
    r: "requests s requestId = Some request'"
    and sid: "field request' ''student_id'' = FString studentId'"
    and ok: "FUndefined \<notin> snd ` set (approveUserData request')"
    and s': "s' = s\<lparr>requests := (requests s)(requestId \<mapsto>
               request' ++ map_of (updateData adminId adminNotes now)),
             users := (users s)(studentId' \<mapsto> u ++ map_of (approveUserData request'))\<rparr>"
    unfolding approveMentorRequest_def by (rule review_success)
  from r sid assms have eq: "request' = request" "studentId' = studentId"
    by simp_all
  from ok have f: "field request ''requested_mentor_id'' \<noteq> FUndefined"
    by (auto simp: approveUserData_def eq)
  let ?u' = "u ++ map_of (approveUserData request)"
  show "\<exists>u'. users s' studentId = Some u'
             \<and> u' ''mentor_id'' = request ''requested_mentor_id''
             \<and> u' ''mentor_id'' \<noteq> None \<and> u' ''mentor_id'' \<noteq> Some FUndefined
             \<and> u' ''pending_mentor_id'' = Some (FString [])"
  proof (intro exI conjI)
    show "users s' studentId = Some ?u'" by (simp add: s' eq)
    show "?u' ''mentor_id'' = request ''requested_mentor_id''"
      using field_map_of [OF f] by (simp add: approveUserData_def)
    show "?u' ''mentor_id'' \<noteq> None"
      by (simp add: approveUserData_def)
    show "?u' ''mentor_id'' \<noteq> Some FUndefined"
      using f by (simp add: approveUserData_def)
    show "?u' ''pending_mentor_id'' = Some (FString [])"
      by (simp add: approveUserData_def)
  qed
next
  assume "rejectMentorRequest requestId adminId adminNotes now s = (Inr (), s')"
  then obtain request' studentId' u where
    r: "requests s requestId = Some request'"
    and sid: "field request' ''student_id'' = FString studentId'"
    and u: "users s studentId' = Some u"
    and s': "s' = s\<lparr>requests := (requests s)(requestId \<mapsto>
               request' ++ map_of (rejectData adminId adminNotes now)),
             users := (users s)(studentId' \<mapsto> u ++ map_of rejectUserData)\<rparr>"
    unfolding rejectMentorRequest_def by (rule review_success)
  from r sid assms have eq: "request' = request" "studentId' = studentId"
    by simp_all
  let ?u' = "u ++ map_of rejectUserData"
  show "\<exists>u u'. users s studentId = Some u \<and> users s' studentId = Some u'
             \<and> u' ''mentor_id'' = u ''mentor_id''
             \<and> u' ''pending_mentor_id'' = Some (FString [])"
  proof (intro exI conjI)
    show "users s studentId = Some u" using u by (simp add: eq)
    show "users s' studentId = Some ?u'" by (simp add: s' eq)
    show "?u' ''mentor_id'' = u ''mentor_id''"
      by (simp add: rejectUserData_def)
    show "?u' ''pending_mentor_id'' = Some (FString [])"
      by (simp add: rejectUserData_def)
  qed
qed

lemma review_succeeds:
  assumes "requests s requestId = Some request"
    and "field request ''status'' = FString (js ''pending'')"
    and "field request ''student_id'' = FString studentId"
    and "users s studentId = Some u"
    and "FUndefined \<notin> snd ` set requestUpdate"
    and "FUndefined \<notin> snd ` set (userUpdate request)"
  shows "reviewMentorRequest requestUpdate userUpdate requestId s =
    (Inr (), s\<lparr>requests := (requests s)(requestId \<mapsto> request ++ map_of requestUpdate),
             users := (users s)(studentId \<mapsto> u ++ map_of (userUpdate request))\<rparr>)"
  using assms
  by (simp add: reviewMentorRequest_def updateUser_def updateDoc_def Let_def)


lemmas review_defs = approveMentorRequest_def rejectMentorRequest_def reviewMentorRequest_def
  updateUser_def updateDoc_def field_def updateData_def rejectData_def approveUserData_def
  rejectUserData_def exampleStore_def

lemma example_approve:
  "fst (approveMentorRequest (js ''r1'') (js ''a1'') None 5 exampleStore) = Inr ()"
  by (simp add: review_defs)

lemma example_reject:
  "fst (rejectMentorRequest (js ''r1'') (js ''a1'') (Some (js ''no'')) 5 exampleStore) = Inr ()"
  by (simp add: review_defs)

theorem terminal_request_refuses_review_witness:
  "approveMentorRequest (js ''r1'') (js ''a1'') None 6
      (snd (approveMentorRequest (js ''r1'') (js ''a1'') None 5 exampleStore))
    = (Inl InvalidStateError, snd (approveMentorRequest (js ''r1'') (js ''a1'') None 5 exampleStore))
   \<and> rejectMentorRequest (js ''r1'') (js ''a1'') None 6
      (snd (approveMentorRequest (js ''r1'') (js ''a1'') None 5 exampleStore))
    = (Inl InvalidStateError, snd (approveMentorRequest (js ''r1'') (js ''a1'') None 5 exampleStore))"
proof -
  let ?s1 = "snd (approveMentorRequest (js ''r1'') (js ''a1'') None 5 exampleStore)"
  obtain r where a: "requests ?s1 (js ''r1'') = Some r"
    and b: "field r ''status'' = FString (js ''approved'')"
    by (simp add: review_defs)
  from b have "field r ''status'' = FString (js ''approved'')
       \<or> field r ''status'' = FString (js ''rejected'')" ..
  with a show ?thesis
    by (rule terminal_request_refuses_review)
qed

theorem review_sets_student_pointers_witness:
  "(\<exists>u'. users (snd (approveMentorRequest (js ''r1'') (js ''a1'') None 5 exampleStore)) (js ''s1'')
          = Some u'
      \<and> u' ''mentor_id'' = Some (FString (js ''m2''))
      \<and> u' ''pending_mentor_id'' = Some (FString []))
   \<and> (\<exists>u'. users (snd (rejectMentorRequest (js ''r1'') (js ''a1'') None 5 exampleStore)) (js ''s1'')
          = Some u'
      \<and> u' ''mentor_id'' = Some (FString (js ''m1''))
      \<and> u' ''pending_mentor_id'' = Some (FString []))"
proof -
  let ?A = "approveMentorRequest (js ''r1'') (js ''a1'') None 5 exampleStore"
  let ?R = "rejectMentorRequest (js ''r1'') (js ''a1'') None 5 exampleStore"
  let ?req = "[''student_id'' \<mapsto> FString (js ''s1''),
          ''requested_mentor_id'' \<mapsto> FString (js ''m2''),
          ''status'' \<mapsto> FString (js ''pending'')]"
  have a: "requests exampleStore (js ''r1'') = Some ?req"
    by (simp add: exampleStore_def)
  have b: "field ?req ''student_id'' = FString (js ''s1'')"
    by (simp add: field_def)
  have ra: "?A = (Inr (), snd ?A)" and rr: "?R = (Inr (), snd ?R)"
    by (simp_all add: review_defs prod_eq_iff)
  have u: "users exampleStore (js ''s1'') = Some [''name'' \<mapsto> FString (js ''Asha''),
          ''mentor_id'' \<mapsto> FString (js ''m1''),
          ''pending_mentor_id'' \<mapsto> FString (js ''m2'')]"
    by (simp add: exampleStore_def)
  from review_sets_student_pointers [OF a b, of "js ''a1''" None 5 "snd ?A"] ra
  have "\<exists>u'. users (snd ?A) (js ''s1'') = Some u'
      \<and> u' ''mentor_id'' = Some (FString (js ''m2''))
      \<and> u' ''pending_mentor_id'' = Some (FString [])"
    by auto
  moreover
  from review_sets_student_pointers [OF a b, of "js ''a1''" None 5 "snd ?R"] rr u
  have "\<exists>u'. users (snd ?R) (js ''s1'') = Some u'
      \<and> u' ''mentor_id'' = Some (FString (js ''m1''))
      \<and> u' ''pending_mentor_id'' = Some (FString [])"
    by auto
  ultimately show ?thesis ..
qed


section \<open>Notification banners\<close>

lemma setError_success [simp]:
  "successMessage (setErrorMessage t m st) = successMessage st"
  "successTimer (setErrorMessage t m st) = successTimer st"
  by (simp_all add: setErrorMessage_def)

lemma setSuccess_error [simp]:
  "errorMessage (setSuccessMessage t m st) = errorMessage st"
  "errorTimer (setSuccessMessage t m st) = errorTimer st"
  by (simp_all add: setSuccessMessage_def)

lemma advance_success:
  "successMessage (advance t st) =
     (case successTimer st of
        Some d \<Rightarrow> if d \<le> t then [] else successMessage st
      | None \<Rightarrow> successMessage st)"
  "successTimer (advance t st) =
     (case successTimer st of
        Some d \<Rightarrow> if d \<le> t then None else Some d
      | None \<Rightarrow> None)"
  by (auto simp: advance_def setSuccessMessage_def Let_def split: option.splits)

lemma advance_error:
  "errorMessage (advance t st) =
     (case errorTimer st of
        Some d \<Rightarrow> if d \<le> t then [] else errorMessage st
      | None \<Rightarrow> errorMessage st)"
  "errorTimer (advance t st) =
     (case errorTimer st of
        Some d \<Rightarrow> if d \<le> t then None else Some d
      | None \<Rightarrow> None)"
  by (auto simp: advance_def setErrorMessage_def setSuccessMessage_def Let_def
      split: option.splits)

lemma successDue_advance: "successDue D st \<Longrightarrow> successDue D (advance t st)"
  by (auto simp: successDue_def advance_success split: option.splits)

lemma errorDue_advance: "errorDue D st \<Longrightarrow> errorDue D (advance t st)"
  by (auto simp: errorDue_def advance_error split: option.splits)

lemma successDue_set:
  "m \<noteq> successMessage st \<or> successDue (T + 3000) st \<Longrightarrow>
   successDue (T + 3000) (setSuccessMessage T m st)"
  by (auto simp: successDue_def setSuccessMessage_def)

lemma errorDue_set:
  "m \<noteq> errorMessage st \<or> errorDue (T + 5000) st \<Longrightarrow>
   errorDue (T + 5000) (setErrorMessage T m st)"
  by (auto simp: errorDue_def setErrorMessage_def)

lemma successDue_mono: "successDue D st \<Longrightarrow> D \<le> D' \<Longrightarrow> successDue D' st"
  by (auto simp: successDue_def)

lemma errorDue_mono: "errorDue D st \<Longrightarrow> D \<le> D' \<Longrightarrow> errorDue D' st"
  by (auto simp: errorDue_def)

lemma successDue_step:
  assumes "successDue D st" and "isSetSuccess (snd ev) \<longrightarrow> fst ev + 3000 \<le> D"
  shows "successDue D (step st ev)"
proof (cases ev)
  case (Pair t e)
  have a: "successDue D (advance t st)"
    using assms(1) by (rule successDue_advance)
  show ?thesis
  proof (cases e)
    case (SetSuccess m)
    with assms(2) Pair have le: "t + 3000 \<le> D" by simp
    show ?thesis
    proof (cases "m = successMessage (advance t st)")
      case True
      with a Pair SetSuccess show ?thesis
        by (simp add: setSuccessMessage_def)
    next
      case False
      then have "successDue (t + 3000) (setSuccessMessage t m (advance t st))"
        by (intro successDue_set) simp
      with le Pair SetSuccess show ?thesis
        by (simp add: successDue_mono)
    qed
  next
    case (SetError m)
    with a Pair show ?thesis
      by (simp add: successDue_def)
  qed
qed

lemma errorDue_step:
  assumes "errorDue D st" and "isSetError (snd ev) \<longrightarrow> fst ev + 5000 \<le> D"
  shows "errorDue D (step st ev)"
proof (cases ev)
  case (Pair t e)
  have a: "errorDue D (advance t st)"
    using assms(1) by (rule errorDue_advance)
  show ?thesis
  proof (cases e)
    case (SetError m)
    with assms(2) Pair have le: "t + 5000 \<le> D" by simp
    show ?thesis
    proof (cases "m = errorMessage (advance t st)")
      case True
      with a Pair SetError show ?thesis
        by (simp add: setErrorMessage_def)
    next
      case False
      then have "errorDue (t + 5000) (setErrorMessage t m (advance t st))"
        by (intro errorDue_set) simp
      with le Pair SetError show ?thesis
        by (simp add: errorDue_mono)
    qed
  next
    case (SetSuccess m)
    with a Pair show ?thesis
      by (simp add: errorDue_def)
  qed
qed

lemma successDue_run:
  "successDue D st \<Longrightarrow> \<forall>ev\<in>set evs. isSetSuccess (snd ev) \<longrightarrow> fst ev + 3000 \<le> D \<Longrightarrow>
   successDue D (run evs st)"
  unfolding run_def
  by (induction evs arbitrary: st) (simp_all add: successDue_step)

lemma errorDue_run:
  "errorDue D st \<Longrightarrow> \<forall>ev\<in>set evs. isSetError (snd ev) \<longrightarrow> fst ev + 5000 \<le> D \<Longrightarrow>
   errorDue D (run evs st)"
  unfolding run_def
  by (induction evs arbitrary: st) (simp_all add: errorDue_step)

lemma due_idle: "successDue D idle" "errorDue D idle"
  by (simp_all add: successDue_def errorDue_def idle_def)

lemma successDue_cleared: "successDue D st \<Longrightarrow> D \<le> t \<Longrightarrow> successMessage (advance t st) = []"
  by (auto simp: successDue_def advance_success split: option.splits)

lemma errorDue_cleared: "errorDue D st \<Longrightarrow> D \<le> t \<Longrightarrow> errorMessage (advance t st) = []"
  by (auto simp: errorDue_def advance_error split: option.splits)

text \<open>
  C9. In every history of the component, a success message set at time \<open>T\<close> is cleared
  at every time from \<open>T + 3000\<close> milliseconds on, whatever error messages are set in
  between, unless a success message is set again before; an error message likewise from
  \<open>T + 5000\<close> on. Setting a message (other than the one shown) replaces the pending
  timeout of its kind by one counted from the new message, none for the empty message:
  the timeout scheduled before is cancelled, and the new message stays until its own
  timeout.
\<close>

theorem messages_cleared_after_delay:
  "((\<forall>ev\<in>set before. fst ev \<le> T) \<and> (\<forall>ev\<in>set after. \<not> isSetSuccess (snd ev))
      \<and> T + 3000 \<le> t \<longrightarrow>
      successMessage (advance t (run after (setSuccessMessage T m (run before idle)))) = [])
   \<and> ((\<forall>ev\<in>set before. fst ev \<le> T) \<and> (\<forall>ev\<in>set after. \<not> isSetError (snd ev))
      \<and> T + 5000 \<le> t \<longrightarrow>
      errorMessage (advance t (run after (setErrorMessage T m (run before idle)))) = [])
   \<and> (m \<noteq> successMessage st \<longrightarrow>
      successTimer (setSuccessMessage T m st) = (if m = [] then None else Some (T + 3000)))
   \<and> (m \<noteq> errorMessage st \<longrightarrow>
      errorTimer (setErrorMessage T m st) = (if m = [] then None else Some (T + 5000)))
   \<and> (m \<noteq> successMessage st \<and> t < T + 3000 \<longrightarrow>
      successMessage (advance t (setSuccessMessage T m st)) = m)
   \<and> (m \<noteq> errorMessage st \<and> t < T + 5000 \<longrightarrow>
      errorMessage (advance t (setErrorMessage T m st)) = m)"
proof (intro conjI impI)
  assume a: "(\<forall>ev\<in>set before. fst ev \<le> T) \<and> (\<forall>ev\<in>set after. \<not> isSetSuccess (snd ev))
      \<and> T + 3000 \<le> t"
  then have "successDue (T + 3000) (run before idle)"
    by (intro successDue_run due_idle) simp
  then have "successDue (T + 3000) (setSuccessMessage T m (run before idle))"
    by (intro successDue_set) simp
  with a have "successDue (T + 3000) (run after (setSuccessMessage T m (run before idle)))"
    by (intro successDue_run) simp_all
  with a show "successMessage (advance t (run after (setSuccessMessage T m (run before idle))))
      = []"
    by (intro successDue_cleared [of "T + 3000"]) simp_all
next
  assume a: "(\<forall>ev\<in>set before. fst ev \<le> T) \<and> (\<forall>ev\<in>set after. \<not> isSetError (snd ev))
      \<and> T + 5000 \<le> t"
  then have "errorDue (T + 5000) (run before idle)"
    by (intro errorDue_run due_idle) simp
  then have "errorDue (T + 5000) (setErrorMessage T m (run before idle))"
    by (intro errorDue_set) simp
  with a have "errorDue (T + 5000) (run after (setErrorMessage T m (run before idle)))"
    by (intro errorDue_run) simp_all
  with a show "errorMessage (advance t (run after (setErrorMessage T m (run before idle)))) = []"
    by (intro errorDue_cleared [of "T + 5000"]) simp_all
next
  assume "m \<noteq> successMessage st"
  then show "successTimer (setSuccessMessage T m st) = (if m = [] then None else Some (T + 3000))"
    by (simp add: setSuccessMessage_def)
next
  assume "m \<noteq> errorMessage st"
  then show "errorTimer (setErrorMessage T m st) = (if m = [] then None else Some (T + 5000))"
    by (simp add: setErrorMessage_def)
next
  assume "m \<noteq> successMessage st \<and> t < T + 3000"
  then show "successMessage (advance t (setSuccessMessage T m st)) = m"
    by (simp add: advance_success setSuccessMessage_def)
next
  assume "m \<noteq> errorMessage st \<and> t < T + 5000"
  then show "errorMessage (advance t (setErrorMessage T m st)) = m"
    by (simp add: advance_error setErrorMessage_def)
qed

theorem messages_cleared_witness:
  "successMessage (advance 4000 (run [(2000, SetError (js ''Failed''))]
      (setSuccessMessage 1000 (js ''Goal approved'')
        (run [(400, SetSuccess (js ''Goal approved''))] idle)))) = []
   \<and> errorMessage (advance 4000 (run [(2000, SetError (js ''Failed''))]
      (setSuccessMessage 1000 (js ''Goal approved'')
        (run [(400, SetSuccess (js ''Goal approved''))] idle)))) = js ''Failed''
   \<and> successMessage (advance 3999 (setSuccessMessage 1000 (js ''Goal approved'') idle))
      = js ''Goal approved''
   \<and> successTimer (setSuccessMessage 2500 (js ''Reflection approved'')
      (setSuccessMessage 1000 (js ''Goal approved'') idle)) = Some 5500"
proof -
  let ?before = "[(400, SetSuccess (js ''Goal approved''))]"
  let ?after = "[(2000, SetError (js ''Failed''))]"
  have a: "js ''Goal approved'' \<noteq> successMessage idle"
    and b: "\<forall>ev\<in>set ?after. \<not> isSetSuccess (snd ev)"
    and b': "\<forall>ev\<in>set ?before. fst ev \<le> (1000::nat)"
    and c: "js ''Reflection approved'' \<noteq>
      successMessage (setSuccessMessage 1000 (js ''Goal approved'') idle)"
    by (simp_all add: idle_def js_def setSuccessMessage_def)
  have d: "errorMessage (advance 4000 (run ?after
      (setSuccessMessage 1000 (js ''Goal approved'') (run ?before idle)))) = js ''Failed''"
    by (simp add: run_def advance_error setErrorMessage_def idle_def js_def)
  from messages_cleared_after_delay [of ?before 1000 ?after 4000 "js ''Goal approved''"] b b'
  have "successMessage (advance 4000 (run ?after
      (setSuccessMessage 1000 (js ''Goal approved'') (run ?before idle)))) = []"
    by simp
  moreover
  from messages_cleared_after_delay [where m = "js ''Goal approved''" and st = idle
      and T = 1000 and t = 3999] a
  have "successMessage (advance 3999 (setSuccessMessage 1000 (js ''Goal approved'') idle))
      = js ''Goal approved''"
    by simp
  moreover
  from messages_cleared_after_delay [where m = "js ''Reflection approved''"
      and st = "setSuccessMessage 1000 (js ''Goal approved'') idle" and T = 2500] c
  have "successTimer (setSuccessMessage 2500 (js ''Reflection approved'')
      (setSuccessMessage 1000 (js ''Goal approved'') idle)) = Some 5500"
    by (simp add: js_def)
  ultimately show ?thesis using d by simp
qed

section \<open>Attendance reporters\<close>

subsection \<open>Failure of a run\<close>

lemma mainGoals_caught:
  "tryGoals fo w = (Inl e, posted) \<Longrightarrow>
   mainGoals fo w =
     catchBlock ([0x274C] @ js '' Daily Report Failed'')
       (js ''An error occurred while generating the daily goal attendance report.'') w e posted"
  by (simp add: mainGoals_def)

lemma mainReflections_caught:
  "tryReflections fo w = (Inl e, posted) \<Longrightarrow>
   mainReflections fo w =
     catchBlock ([0x274C] @ js '' Evening Report Failed'')
       (js ''An error occurred while generating the reflection attendance report.'') w e posted"
  by (simp add: mainReflections_def)

lemma mainGoals_done:
  "tryGoals fo w = (Inr status, posted) \<Longrightarrow>
   mainGoals fo w = \<lparr>exitCode = status, posts = posted, errorLog = []\<rparr>"
  by (simp add: mainGoals_def)

lemma mainReflections_done:
  "tryReflections fo w = (Inr status, posted) \<Longrightarrow>
   mainReflections fo w = \<lparr>exitCode = status, posts = posted, errorLog = []\<rparr>"
  by (simp add: mainReflections_def)

lemma catchBlock_outcome:
  "exitCode (catchBlock ttl descr w e posted) = 1"
  "posts (catchBlock ttl descr w e posted) = posted @ [[errorEmbed ttl descr e (errorTimestamp w)]]"
  "errorLog (catchBlock ttl descr w e posted) =
     ReportError e #
     (case sendDiscordNotification
             (webhook w (length posted) [errorEmbed ttl descr e (errorTimestamp w)]) of
        Inl notifError \<Rightarrow> [NotificationError (message notifError)]
      | Inr u \<Rightarrow> [])"
  by (simp_all add: catchBlock_def Let_def)

lemma tryGoals_status: "tryGoals fo w = (Inr status, posted) \<Longrightarrow> status = 0"
  by (auto simp: tryGoals_def Let_def split: sum.splits if_splits)

lemma tryReflections_status: "tryReflections fo w = (Inr status, posted) \<Longrightarrow> status = 0"
  by (auto simp: tryReflections_def Let_def split: sum.splits if_splits)

lemma tryGoals_posted: "length (snd (tryGoals fo w)) \<le> 1"
  by (simp add: tryGoals_def Let_def split: sum.splits)

lemma tryReflections_posted: "length (snd (tryReflections fo w)) \<le> 1"
  by (simp add: tryReflections_def Let_def split: sum.splits)

lemma tryGoals_report:
  assumes "getAllStudents w = Inr allStudents" and "allStudents \<noteq> []"
    and "getStudentsWithGoalsToday w (getTodayDateIST (clock w)) = Inr ids"
  shows "snd (tryGoals fo w) =
      [[goalEmbed fo (getTodayDateIST (clock w)) (isoTimestamp w)
          (presentStudents allStudents ids) (absentStudents allStudents ids)
          (length allStudents)]]"
    and "fst (tryGoals fo w) =
      (case sendDiscordNotification (webhook w 0
          [goalEmbed fo (getTodayDateIST (clock w)) (isoTimestamp w)
            (presentStudents allStudents ids) (absentStudents allStudents ids)
            (length allStudents)]) of
         Inl e \<Rightarrow> Inl e
       | Inr u \<Rightarrow> Inr 0)"
  using assms by (simp_all add: tryGoals_def Let_def split: sum.splits)

lemma tryReflections_report:
  assumes "getAllStudentsR w = Inr allStudents" and "allStudents \<noteq> []"
    and "getStudentsWithReflectionsToday w (getTodayDateIST (clock w)) = Inr ids"
  shows "snd (tryReflections fo w) =
      [[reflectionEmbed fo (getTodayDateIST (clock w)) (isoTimestamp w) (length ids)
          (length allStudents)]]"
    and "fst (tryReflections fo w) =
      (case sendDiscordNotification (webhook w 0
          [reflectionEmbed fo (getTodayDateIST (clock w)) (isoTimestamp w) (length ids)
            (length allStudents)]) of
         Inl e \<Rightarrow> Inl e
       | Inr u \<Rightarrow> Inr 0)"
  using assms by (simp_all add: tryReflections_def Let_def split: sum.splits)

text \<open>The steps whose failure makes the \<open>try\<close> block throw: fetching the students, fetching
  the submissions (or building the range of the query), and posting the report.\<close>

lemma tryGoals_throws:
  "getAllStudents w = Inl e \<Longrightarrow> tryGoals fo w = (Inl e, [])"
  "getAllStudents w = Inr allStudents \<Longrightarrow> allStudents \<noteq> [] \<Longrightarrow>
   getStudentsWithGoalsToday w (getTodayDateIST (clock w)) = Inl e \<Longrightarrow>
   tryGoals fo w = (Inl e, [])"
  "getAllStudents w = Inr allStudents \<Longrightarrow> allStudents \<noteq> [] \<Longrightarrow>
   getStudentsWithGoalsToday w (getTodayDateIST (clock w)) = Inr ids \<Longrightarrow>
   sendDiscordNotification (webhook w 0
     [goalEmbed fo (getTodayDateIST (clock w)) (isoTimestamp w)
        (presentStudents allStudents ids) (absentStudents allStudents ids)
        (length allStudents)]) = Inl e \<Longrightarrow>
   tryGoals fo w =
     (Inl e, [[goalEmbed fo (getTodayDateIST (clock w)) (isoTimestamp w)
        (presentStudents allStudents ids) (absentStudents allStudents ids)
        (length allStudents)]])"
  by (simp_all add: tryGoals_def Let_def)

lemma tryReflections_throws:
  "getAllStudentsR w = Inl e \<Longrightarrow> tryReflections fo w = (Inl e, [])"
  "getAllStudentsR w = Inr allStudents \<Longrightarrow> allStudents \<noteq> [] \<Longrightarrow>
   getStudentsWithReflectionsToday w (getTodayDateIST (clock w)) = Inl e \<Longrightarrow>
   tryReflections fo w = (Inl e, [])"
  "getAllStudentsR w = Inr allStudents \<Longrightarrow> allStudents \<noteq> [] \<Longrightarrow>
   getStudentsWithReflectionsToday w (getTodayDateIST (clock w)) = Inr ids \<Longrightarrow>
   sendDiscordNotification (webhook w 0
     [reflectionEmbed fo (getTodayDateIST (clock w)) (isoTimestamp w) (length ids)
        (length allStudents)]) = Inl e \<Longrightarrow>
   tryReflections fo w =
     (Inl e, [[reflectionEmbed fo (getTodayDateIST (clock w)) (isoTimestamp w) (length ids)
        (length allStudents)]])"
  by (simp_all add: tryReflections_def Let_def)

lemma goalEmbed_absent_field:
  "map fvalue (drop 3 (efields (goalEmbed fo todayDate isoNow present absent totalCount)))
     = [fvalue (absentField absent)]"
  by (simp add: goalEmbed_def Let_def)

lemma goals_query:
  assumes "goalsCollection w = Inr collection"
    and "dateFromString (tzOffset w) todayDate = Some a"
    and "dateFromString (tzOffset w) (todayDate @ js ''T23:59:59'') = Some b"
  shows "getStudentsWithGoalsToday w todayDate
    = Inr (collectIds (filter (inRange a b) collection) [])"
  using assms
  by (simp add: getStudentsWithGoalsToday_def getStudentsWithSubmissionsToday_def)

lemma mainGoals_report:
  assumes "getAllStudents w = Inr allStudents" and "allStudents \<noteq> []"
    and "getStudentsWithGoalsToday w (getTodayDateIST (clock w)) = Inr ids"
  shows "take 1 (posts (mainGoals fo w)) =
      [[goalEmbed fo (getTodayDateIST (clock w)) (isoTimestamp w)
          (presentStudents allStudents ids) (absentStudents allStudents ids)
          (length allStudents)]]"
proof -
  let ?msg = "[goalEmbed fo (getTodayDateIST (clock w)) (isoTimestamp w)
          (presentStudents allStudents ids) (absentStudents allStudents ids)
          (length allStudents)]"
  have p: "snd (tryGoals fo w) = [?msg]"
    using assms by (rule tryGoals_report)
  show ?thesis
  proof (cases "fst (tryGoals fo w)")
    case (Inl e)
    with p have "tryGoals fo w = (Inl e, [?msg])"
      by (simp add: prod_eq_iff)
    then show ?thesis
      by (simp add: mainGoals_caught catchBlock_outcome)
  next
    case (Inr status)
    with p have "tryGoals fo w = (Inr status, [?msg])"
      by (simp add: prod_eq_iff)
    then show ?thesis
      by (simp add: mainGoals_done)
  qed
qed

lemma example_students:
  "getAllStudents exampleWorld =
     Inr [\<lparr>st_id = js ''s1'', st_name = js ''Ravi'', st_email = [], st_campus = js ''Pune'',
            st_house = []\<rparr>,
          mkStudent (js ''s2'') (js ''Asha''), mkStudent (js ''s3'') (js ''amit''),
          mkStudent (js ''s4'') (js ''Zoya'')]"
  by code_simp

lemma example_today: "getTodayDateIST (clock exampleWorld) = js ''2025-11-11''"
  by code_simp

lemma example_goals_today:
  "getStudentsWithGoalsToday exampleWorld (js ''2025-11-11'') = Inr [js ''s1'']"
  by code_simp

lemma example_absent:
  "absentStudents [\<lparr>st_id = js ''s1'', st_name = js ''Ravi'', st_email = [],
            st_campus = js ''Pune'', st_house = []\<rparr>,
          mkStudent (js ''s2'') (js ''Asha''), mkStudent (js ''s3'') (js ''amit''),
          mkStudent (js ''s4'') (js ''Zoya'')] [js ''s1'']
     = [mkStudent (js ''s2'') (js ''Asha''), mkStudent (js ''s3'') (js ''amit''),
          mkStudent (js ''s4'') (js ''Zoya'')]"
  by code_simp

lemma example_absent_value:
  "fvalue (absentField [mkStudent (js ''s2'') (js ''Asha''), mkStudent (js ''s3'') (js ''amit''),
          mkStudent (js ''s4'') (js ''Zoya'')]) = js ''Asha, Zoya, amit''"
  by code_simp

subsection \<open>Posting\<close>

lemma mainGoals_exit:
  assumes "getAllStudents w = Inr allStudents" and "allStudents \<noteq> []"
    and "getStudentsWithGoalsToday w (getTodayDateIST (clock w)) = Inr ids"
  shows "exitCode (mainGoals fo w) =
      (case sendDiscordNotification (webhook w 0
          [goalEmbed fo (getTodayDateIST (clock w)) (isoTimestamp w)
            (presentStudents allStudents ids) (absentStudents allStudents ids)
            (length allStudents)]) of
         Inl e \<Rightarrow> 1
       | Inr u \<Rightarrow> 0)"
proof -
  let ?msg = "[goalEmbed fo (getTodayDateIST (clock w)) (isoTimestamp w)
            (presentStudents allStudents ids) (absentStudents allStudents ids)
            (length allStudents)]"
  show ?thesis
  proof (cases "sendDiscordNotification (webhook w 0 ?msg)")
    case (Inl e)
    with assms have "tryGoals fo w = (Inl e, [?msg])"
      by (intro tryGoals_throws)
    with Inl show ?thesis
      by (simp add: mainGoals_caught catchBlock_outcome)
  next
    case (Inr u)
    with tryGoals_report [OF assms, of fo] have "tryGoals fo w = (Inr 0, [?msg])"
      by (simp add: prod_eq_iff)
    with Inr show ?thesis
      by (simp add: mainGoals_done)
  qed
qed

lemma mainReflections_exit:
  assumes "getAllStudentsR w = Inr allStudents" and "allStudents \<noteq> []"
    and "getStudentsWithReflectionsToday w (getTodayDateIST (clock w)) = Inr ids"
  shows "exitCode (mainReflections fo w) =
      (case sendDiscordNotification (webhook w 0
          [reflectionEmbed fo (getTodayDateIST (clock w)) (isoTimestamp w) (length ids)
            (length allStudents)]) of
         Inl e \<Rightarrow> 1
       | Inr u \<Rightarrow> 0)"
proof -
  let ?msg = "[reflectionEmbed fo (getTodayDateIST (clock w)) (isoTimestamp w) (length ids)
            (length allStudents)]"
  show ?thesis
  proof (cases "sendDiscordNotification (webhook w 0 ?msg)")
    case (Inl e)
    with assms have "tryReflections fo w = (Inl e, [?msg])"
      by (intro tryReflections_throws)
    with Inl show ?thesis
      by (simp add: mainReflections_caught catchBlock_outcome)
  next
    case (Inr u)
    with tryReflections_report [OF assms, of fo] have "tryReflections fo w = (Inr 0, [?msg])"
      by (simp add: prod_eq_iff)
    with Inr show ?thesis
      by (simp add: mainReflections_done)
  qed
qed

lemma send_ok_iff:
  "sendDiscordNotification outcome = Inr () \<longleftrightarrow>
     outcome = Response 200 \<or> outcome = Response 204"
  by (cases outcome) (auto simp: sendDiscordNotification_def)

text \<open>
  C8. A post to the webhook succeeds exactly when the response has status 200 or 204.
  Every other outcome rejects with an error: a response with another status with the
  error \<open>Discord API error: <status>\<close>, an error of the request with that error. A run
  that has fetched the students and the submissions exits with status 0 exactly when
  the answer to the post of its report has status 200 or 204.
\<close>

theorem post_ok_iff_200_or_204:
  "(sendDiscordNotification outcome = Inr () \<longleftrightarrow>
      outcome = Response 200 \<or> outcome = Response 204)
   \<and> ((\<exists>e. sendDiscordNotification outcome = Inl e) \<longleftrightarrow>
      \<not> (outcome = Response 200 \<or> outcome = Response 204))
   \<and> (\<forall>c. outcome = Response c \<and> c \<noteq> 200 \<and> c \<noteq> 204 \<longrightarrow>
        sendDiscordNotification outcome = Inl (Error (js ''Discord API error: '' @ showNat c)))
   \<and> (\<forall>e. outcome = RequestError e \<longrightarrow> sendDiscordNotification outcome = Inl e)
   \<and> (getAllStudents w = Inr allStudents \<and> allStudents \<noteq> []
        \<and> getStudentsWithGoalsToday w (getTodayDateIST (clock w)) = Inr ids
        \<and> webhook w 0 [goalEmbed fo (getTodayDateIST (clock w)) (isoTimestamp w)
            (presentStudents allStudents ids) (absentStudents allStudents ids)
            (length allStudents)] = outcome \<longrightarrow>
        (exitCode (mainGoals fo w) = 0 \<longleftrightarrow>
           outcome = Response 200 \<or> outcome = Response 204))
   \<and> (getAllStudentsR w = Inr allStudentsR \<and> allStudentsR \<noteq> []
        \<and> getStudentsWithReflectionsToday w (getTodayDateIST (clock w)) = Inr ids
        \<and> webhook w 0 [reflectionEmbed fo (getTodayDateIST (clock w)) (isoTimestamp w)
            (length ids) (length allStudentsR)] = outcome \<longrightarrow>
        (exitCode (mainReflections fo w) = 0 \<longleftrightarrow>
           outcome = Response 200 \<or> outcome = Response 204))"
proof (intro conjI impI allI)
  show "sendDiscordNotification outcome = Inr () \<longleftrightarrow>
      outcome = Response 200 \<or> outcome = Response 204"
    by (rule send_ok_iff)
  show "(\<exists>e. sendDiscordNotification outcome = Inl e) \<longleftrightarrow>
      \<not> (outcome = Response 200 \<or> outcome = Response 204)"
    by (cases outcome) (auto simp: sendDiscordNotification_def)
next
  fix c
  assume "outcome = Response c \<and> c \<noteq> 200 \<and> c \<noteq> 204"
  then show "sendDiscordNotification outcome
      = Inl (Error (js ''Discord API error: '' @ showNat c))"
    by (simp add: sendDiscordNotification_def)
next
  fix e
  assume "outcome = RequestError e"
  then show "sendDiscordNotification outcome = Inl e"
    by (simp add: sendDiscordNotification_def)
next
  assume a: "getAllStudents w = Inr allStudents \<and> allStudents \<noteq> []
        \<and> getStudentsWithGoalsToday w (getTodayDateIST (clock w)) = Inr ids
        \<and> webhook w 0 [goalEmbed fo (getTodayDateIST (clock w)) (isoTimestamp w)
            (presentStudents allStudents ids) (absentStudents allStudents ids)
            (length allStudents)] = outcome"
  then have "exitCode (mainGoals fo w) =
      (case sendDiscordNotification outcome of Inl e \<Rightarrow> 1 | Inr u \<Rightarrow> 0)"
    using mainGoals_exit [of w allStudents ids fo] by simp
  then show "exitCode (mainGoals fo w) = 0 \<longleftrightarrow>
      outcome = Response 200 \<or> outcome = Response 204"
    using send_ok_iff [of outcome] by (simp split: sum.splits)
next
  assume a: "getAllStudentsR w = Inr allStudentsR \<and> allStudentsR \<noteq> []
        \<and> getStudentsWithReflectionsToday w (getTodayDateIST (clock w)) = Inr ids
        \<and> webhook w 0 [reflectionEmbed fo (getTodayDateIST (clock w)) (isoTimestamp w)
            (length ids) (length allStudentsR)] = outcome"
  then have "exitCode (mainReflections fo w) =
      (case sendDiscordNotification outcome of Inl e \<Rightarrow> 1 | Inr u \<Rightarrow> 0)"
    using mainReflections_exit [of w allStudentsR ids fo] by simp
  then show "exitCode (mainReflections fo w) = 0 \<longleftrightarrow>
      outcome = Response 200 \<or> outcome = Response 204"
    using send_ok_iff [of outcome] by (simp split: sum.splits)
qed

theorem post_ok_witness:
  "sendDiscordNotification (Response 204) = Inr ()
   \<and> sendDiscordNotification (Response 200) = Inr ()
   \<and> sendDiscordNotification (Response 404) = Inl (Error (js ''Discord API error: 404''))
   \<and> sendDiscordNotification (RequestError (Error (js ''ECONNRESET'')))
       = Inl (Error (js ''ECONNRESET''))
   \<and> exitCode (mainGoals exampleOps exampleWorld) = 0"
proof -
  have 1: "sendDiscordNotification (Response 204) = Inr ()"
    and 2: "sendDiscordNotification (Response 200) = Inr ()"
    and 3: "sendDiscordNotification (Response 404) = Inl (Error (js ''Discord API error: 404''))"
    and 4: "sendDiscordNotification (RequestError (Error (js ''ECONNRESET'')))
       = Inl (Error (js ''ECONNRESET''))"
    using post_ok_iff_200_or_204 [of "Response 204"] post_ok_iff_200_or_204 [of "Response 200"]
      post_ok_iff_200_or_204 [of "Response 404"]
      post_ok_iff_200_or_204 [of "RequestError (Error (js ''ECONNRESET''))"]
    by (simp_all add: showNat.simps js_def)
  have g: "getStudentsWithGoalsToday exampleWorld (getTodayDateIST (clock exampleWorld))
      = Inr [js ''s1'']"
    using example_goals_today by (simp add: example_today)
  have w: "webhook exampleWorld 0 msg = Response 204" for msg
    by (simp add: exampleWorld_def)
  let ?four = "[\<lparr>st_id = js ''s1'', st_name = js ''Ravi'', st_email = [],
            st_campus = js ''Pune'', st_house = []\<rparr>,
          mkStudent (js ''s2'') (js ''Asha''), mkStudent (js ''s3'') (js ''amit''),
          mkStudent (js ''s4'') (js ''Zoya'')]"
  from post_ok_iff_200_or_204 [where w = exampleWorld and fo = exampleOps
      and outcome = "Response 204" and ids = "[js ''s1'']" and allStudents = ?four,
      THEN conjunct2, THEN conjunct2, THEN conjunct2, THEN conjunct2, THEN conjunct1]
    example_students g w
  have "exitCode (mainGoals exampleOps exampleWorld) = 0"
    by simp
  with 1 2 3 4 show ?thesis
    by (intro conjI)
qed

subsection \<open>Exit of a failed run\<close>














subsection \<open>No students\<close>

lemma goalEmbed_cong:
  "toFixed1 fo (length present) n = toFixed1 fo' (length present) n \<Longrightarrow>
   goalEmbed fo d i present absent n = goalEmbed fo' d i present absent n"
  by (simp add: goalEmbed_def Let_def)

lemma reflectionEmbed_cong:
  "toFixed1 fo p n = toFixed1 fo' p n \<Longrightarrow> atLeast fo = atLeast fo' \<Longrightarrow>
   reflectionEmbed fo d i p n = reflectionEmbed fo' d i p n"
  by (simp add: reflectionEmbed_def motivation_def Let_def)

lemma tryGoals_cong:
  assumes "\<And>p t. 0 < t \<Longrightarrow> toFixed1 fo p t = toFixed1 fo' p t"
  shows "tryGoals fo w = tryGoals fo' w"
proof (cases "getAllStudents w")
  case (Inl e)
  then show ?thesis by (simp add: tryGoals_def)
next
  case (Inr allStudents)
  show ?thesis
  proof (cases "allStudents = []")
    case True
    with Inr show ?thesis by (simp add: tryGoals_def)
  next
    case False
    then have "goalEmbed fo d i present absent (length allStudents)
        = goalEmbed fo' d i present absent (length allStudents)" for d i present absent
      by (intro goalEmbed_cong assms) simp
    with Inr False show ?thesis
      by (simp add: tryGoals_def Let_def cong: sum.case_cong)
  qed
qed

lemma tryReflections_cong:
  assumes "\<And>p t. 0 < t \<Longrightarrow> toFixed1 fo p t = toFixed1 fo' p t"
    and "atLeast fo = atLeast fo'"
  shows "tryReflections fo w = tryReflections fo' w"
proof (cases "getAllStudentsR w")
  case (Inl e)
  then show ?thesis by (simp add: tryReflections_def)
next
  case (Inr allStudents)
  show ?thesis
  proof (cases "allStudents = []")
    case True
    with Inr show ?thesis by (simp add: tryReflections_def)
  next
    case False
    then have "reflectionEmbed fo d i p (length allStudents)
        = reflectionEmbed fo' d i p (length allStudents)" for d i p
      by (intro reflectionEmbed_cong assms) simp
    with Inr False show ?thesis
      by (simp add: tryReflections_def Let_def cong: sum.case_cong)
  qed
qed

text \<open>
  C10. When the list of students fetched is empty, either reporter exits with status 0
  and posts nothing. The percentage is never computed with a total of zero: the outcome
  of a run is the same for any two float operations that agree on every total other
  than zero.
\<close>

theorem no_students_exit_0_without_post:
  "(getAllStudents w = Inr [] \<longrightarrow>
      mainGoals fo w = \<lparr>exitCode = 0, posts = [], errorLog = []\<rparr>)
   \<and> (getAllStudentsR w = Inr [] \<longrightarrow>
      mainReflections fo w = \<lparr>exitCode = 0, posts = [], errorLog = []\<rparr>)
   \<and> ((\<forall>p t. 0 < t \<longrightarrow> toFixed1 fo p t = toFixed1 fo' p t) \<and> atLeast fo = atLeast fo' \<longrightarrow>
      mainGoals fo w = mainGoals fo' w \<and> mainReflections fo w = mainReflections fo' w)"
proof (intro conjI impI)
  assume "getAllStudents w = Inr []"
  then show "mainGoals fo w = \<lparr>exitCode = 0, posts = [], errorLog = []\<rparr>"
    by (simp add: mainGoals_def tryGoals_def)
next
  assume "getAllStudentsR w = Inr []"
  then show "mainReflections fo w = \<lparr>exitCode = 0, posts = [], errorLog = []\<rparr>"
    by (simp add: mainReflections_def tryReflections_def)
next
  assume a: "(\<forall>p t. 0 < t \<longrightarrow> toFixed1 fo p t = toFixed1 fo' p t) \<and> atLeast fo = atLeast fo'"
  then have "tryGoals fo w = tryGoals fo' w"
    by (intro tryGoals_cong) simp
  then show "mainGoals fo w = mainGoals fo' w"
    by (simp add: mainGoals_def)
  from a have "tryReflections fo w = tryReflections fo' w"
    by (intro tryReflections_cong) simp_all
  then show "mainReflections fo w = mainReflections fo' w"
    by (simp add: mainReflections_def)
qed

theorem no_students_exit_0_witness:
  "getAllStudents (exampleWorld\<lparr>usersCollection := Inr [exampleUsers ! 2]\<rparr>) = Inr []
   \<and> mainGoals exampleOps (exampleWorld\<lparr>usersCollection := Inr [exampleUsers ! 2]\<rparr>)
      = \<lparr>exitCode = 0, posts = [], errorLog = []\<rparr>
   \<and> mainReflections exampleOps (exampleWorld\<lparr>usersCollection := Inr [exampleUsers ! 2]\<rparr>)
      = \<lparr>exitCode = 0, posts = [], errorLog = []\<rparr>
   \<and> mainGoals exampleOps exampleWorld
      = mainGoals (exampleOps\<lparr>toFixed1 := (\<lambda>p t. if t = 0 then js ''NaN'' else js ''25.0'')\<rparr>)
          exampleWorld"
proof -
  let ?w = "exampleWorld\<lparr>usersCollection := Inr [exampleUsers ! 2]\<rparr>"
  let ?fo = "exampleOps\<lparr>toFixed1 := (\<lambda>p t. if t = 0 then js ''NaN'' else js ''25.0'')\<rparr>"
  have g: "getAllStudents ?w = Inr []" and r: "getAllStudentsR ?w = Inr []"
    by (simp_all add: getAllStudents_def getAllStudentsR_def exampleUsers_def js_def)
  have f: "(\<forall>p t. 0 < t \<longrightarrow> toFixed1 exampleOps p t = toFixed1 ?fo p t)
      \<and> atLeast exampleOps = atLeast ?fo"
    by (simp add: exampleOps_def)
  from no_students_exit_0_without_post [of ?w exampleOps ?fo] g r
  have "mainGoals exampleOps ?w = \<lparr>exitCode = 0, posts = [], errorLog = []\<rparr>"
    and "mainReflections exampleOps ?w = \<lparr>exitCode = 0, posts = [], errorLog = []\<rparr>"
    by simp_all
  moreover
  from no_students_exit_0_without_post [of exampleWorld exampleOps ?fo] f
  have "mainGoals exampleOps exampleWorld = mainGoals ?fo exampleWorld"
    by blast
  ultimately show ?thesis using g by simp
qed

subsection \<open>Present and absent\<close>

lemma set_collectIds:
  "set (collectIds ds acc) =
     set acc \<union> {i. i \<noteq> [] \<and> (\<exists>d\<in>set ds. student_id d = Some i)}"
  by (induction ds arbitrary: acc) (auto split: option.splits)

lemma distinct_collectIds: "distinct acc \<Longrightarrow> distinct (collectIds ds acc)"
  by (induction ds arbitrary: acc) (auto split: option.splits)

lemma partition_lengths:
  "length (presentStudents allStudents ids) + length (absentStudents allStudents ids)
     = length allStudents"
  unfolding presentStudents_def absentStudents_def
  by (rule sum_length_filter_compl)

text \<open>
  C5. In the goal reporter the present and the absent students together are all
  students: the two counts add up to the total, a student (with a non-empty identifier)
  is present exactly when a submission in the range of the query carries the student's
  identifier, and the absent students are the rest. The list of absent names has one
  name for each absent student, exactly their names, in ascending order. The report shows
  the two counts, and it is the first message that a run posts when the students and the
  submissions have been fetched.
\<close>

theorem attendance_partition:
  fixes allStudents :: "student list" and collection :: "submission list" and a b :: int
  defines "ids \<equiv> collectIds (filter (inRange a b) collection) []"
  defines "present \<equiv> presentStudents allStudents ids"
    and "absent \<equiv> absentStudents allStudents ids"
  shows "length present + length absent = length allStudents
    \<and> (\<forall>s\<in>set allStudents. st_id s \<noteq> [] \<longrightarrow>
          (s \<in> set present \<longleftrightarrow>
             (\<exists>d\<in>set collection. inRange a b d \<and> student_id d = Some (st_id s))))
    \<and> set absent = set allStudents - set present
    \<and> length (sortedAbsentNames absent) = length absent
    \<and> mset (sortedAbsentNames absent) = mset (map st_name absent)
    \<and> sorted (sortedAbsentNames absent)
    \<and> absentNames absent = joinWith (js '', '') (sortedAbsentNames absent)
    \<and> map fvalue (take 2 (efields (goalEmbed fo todayDate isoNow present absent
          (length allStudents))))
        = [js ''**'' @ showNat (length present) @ js ''** students'',
           js ''**'' @ showNat (length absent) @ js ''** students'']
    \<and> (getAllStudents w = Inr allStudents \<and> allStudents \<noteq> []
        \<and> goalsCollection w = Inr collection
        \<and> dateFromString (tzOffset w) (getTodayDateIST (clock w)) = Some a
        \<and> dateFromString (tzOffset w) (getTodayDateIST (clock w) @ js ''T23:59:59'') = Some b
        \<longrightarrow>
        take 1 (posts (mainGoals fo w)) =
          [[goalEmbed fo (getTodayDateIST (clock w)) (isoTimestamp w) present absent
              (length allStudents)]])"
proof (intro conjI ballI impI)
  show "length present + length absent = length allStudents"
    unfolding present_def absent_def by (rule partition_lengths)
  show "set absent = set allStudents - set present"
    unfolding present_def absent_def presentStudents_def absentStudents_def by auto
  show "length (sortedAbsentNames absent) = length absent"
    by (simp add: sortedAbsentNames_def)
  show "mset (sortedAbsentNames absent) = mset (map st_name absent)"
    by (simp add: sortedAbsentNames_def)
  show "sorted (sortedAbsentNames absent)"
    by (simp add: sortedAbsentNames_def)
  show "absentNames absent = joinWith (js '', '') (sortedAbsentNames absent)"
    by (simp add: absentNames_def)
  show "map fvalue (take 2 (efields (goalEmbed fo todayDate isoNow present absent
          (length allStudents))))
        = [js ''**'' @ showNat (length present) @ js ''** students'',
           js ''**'' @ showNat (length absent) @ js ''** students'']"
    by (simp add: goalEmbed_def Let_def)
next
  fix s
  assume "s \<in> set allStudents" and "st_id s \<noteq> []"
  then show "s \<in> set present \<longleftrightarrow>
      (\<exists>d\<in>set collection. inRange a b d \<and> student_id d = Some (st_id s))"
    unfolding present_def presentStudents_def ids_def set_collectIds by auto
next
  assume r: "getAllStudents w = Inr allStudents \<and> allStudents \<noteq> []
        \<and> goalsCollection w = Inr collection
        \<and> dateFromString (tzOffset w) (getTodayDateIST (clock w)) = Some a
        \<and> dateFromString (tzOffset w) (getTodayDateIST (clock w) @ js ''T23:59:59'') = Some b"
  then have "getStudentsWithGoalsToday w (getTodayDateIST (clock w)) = Inr ids"
    unfolding ids_def by (intro goals_query) simp_all
  with r show "take 1 (posts (mainGoals fo w)) =
          [[goalEmbed fo (getTodayDateIST (clock w)) (isoTimestamp w) present absent
              (length allStudents)]]"
    unfolding present_def absent_def by (intro mainGoals_report) simp_all
qed

theorem attendance_partition_witness:
  "length (presentStudents [mkStudent (js ''s1'') (js ''Ravi''), mkStudent (js ''s3'') (js ''amit''),
        mkStudent (js ''s4'') (js ''Zoya'')]
      (collectIds (filter (inRange 1762819200000 1762905599000) exampleGoals) []))
   + length (absentStudents [mkStudent (js ''s1'') (js ''Ravi''), mkStudent (js ''s3'') (js ''amit''),
        mkStudent (js ''s4'') (js ''Zoya'')]
      (collectIds (filter (inRange 1762819200000 1762905599000) exampleGoals) [])) = 3
   \<and> mkStudent (js ''s1'') (js ''Ravi'') \<in> set (presentStudents
        [mkStudent (js ''s1'') (js ''Ravi''), mkStudent (js ''s3'') (js ''amit''),
         mkStudent (js ''s4'') (js ''Zoya'')]
      (collectIds (filter (inRange 1762819200000 1762905599000) exampleGoals) []))
   \<and> sortedAbsentNames (absentStudents [mkStudent (js ''s1'') (js ''Ravi''),
        mkStudent (js ''s3'') (js ''amit''), mkStudent (js ''s4'') (js ''Zoya'')]
      (collectIds (filter (inRange 1762819200000 1762905599000) exampleGoals) []))
     = [js ''Zoya'', js ''amit'']
   \<and> sorted [js ''Zoya'', js ''amit'']
   \<and> map (map fvalue \<circ> take 2 \<circ> efields) (concat (take 1 (posts
        (mainGoals exampleOps exampleWorld))))
     = [[js ''**1** students'', js ''**3** students'']]"
proof -
  let ?all = "[mkStudent (js ''s1'') (js ''Ravi''), mkStudent (js ''s3'') (js ''amit''),
        mkStudent (js ''s4'') (js ''Zoya'')]"
  let ?ids = "collectIds (filter (inRange 1762819200000 1762905599000) exampleGoals) []"
  let ?four = "[\<lparr>st_id = js ''s1'', st_name = js ''Ravi'', st_email = [],
            st_campus = js ''Pune'', st_house = []\<rparr>,
          mkStudent (js ''s2'') (js ''Asha''), mkStudent (js ''s3'') (js ''amit''),
          mkStudent (js ''s4'') (js ''Zoya'')]"
  note p = attendance_partition [where a = 1762819200000 and b = 1762905599000
      and collection = exampleGoals and allStudents = ?all]
  note q = attendance_partition [where a = 1762819200000 and b = 1762905599000
      and collection = exampleGoals and allStudents = ?four and w = exampleWorld
      and fo = exampleOps and todayDate = "js ''2025-11-11''"
      and isoNow = "isoTimestamp exampleWorld"]
  have m: "mkStudent (js ''s1'') (js ''Ravi'') \<in> set ?all"
    and i: "st_id (mkStudent (js ''s1'') (js ''Ravi'')) \<noteq> []"
    by (simp_all add: mkStudent_def js_def)
  have d: "\<exists>d\<in>set exampleGoals. inRange 1762819200000 1762905599000 d
      \<and> student_id d = Some (st_id (mkStudent (js ''s1'') (js ''Ravi'')))"
    by (simp add: exampleGoals_def inRange_def mkStudent_def)
  have s: "sortedAbsentNames (absentStudents ?all ?ids) = [js ''Zoya'', js ''amit'']"
    by code_simp
  have g: "goalsCollection exampleWorld = Inr exampleGoals"
    by (simp add: exampleWorld_def)
  have a: "dateFromString (tzOffset exampleWorld) (js ''2025-11-11'') = Some 1762819200000"
    and b: "dateFromString (tzOffset exampleWorld) (js ''2025-11-11'' @ js ''T23:59:59'')
      = Some 1762905599000"
    by code_simp+
  have n: "length (presentStudents ?four ?ids) = 1" "length (absentStudents ?four ?ids) = 3"
    by code_simp+
  have sh: "showNat 1 = js ''1''" "showNat 3 = js ''3''"
    by code_simp+
  from p have p1: "length (presentStudents ?all ?ids) + length (absentStudents ?all ?ids) = 3"
    by simp
  from p m i d have p2: "mkStudent (js ''s1'') (js ''Ravi'') \<in> set (presentStudents ?all ?ids)"
    by blast
  from p s have p3: "sorted [js ''Zoya'', js ''amit'']"
    by simp
  note c2 = conjunct2
  have "getAllStudents exampleWorld = Inr ?four \<and> ?four \<noteq> []
        \<and> goalsCollection exampleWorld = Inr exampleGoals
        \<and> dateFromString (tzOffset exampleWorld) (getTodayDateIST (clock exampleWorld))
            = Some 1762819200000
        \<and> dateFromString (tzOffset exampleWorld)
            (getTodayDateIST (clock exampleWorld) @ js ''T23:59:59'') = Some 1762905599000"
    using example_students g a b by (simp add: example_today)
  with q [THEN c2, THEN c2, THEN c2, THEN c2, THEN c2, THEN c2, THEN c2, THEN c2]
  have "take 1 (posts (mainGoals exampleOps exampleWorld)) =
      [[goalEmbed exampleOps (getTodayDateIST (clock exampleWorld)) (isoTimestamp exampleWorld)
          (presentStudents ?four ?ids) (absentStudents ?four ?ids) (length ?four)]]"
    by (rule mp)
  moreover
  have "map fvalue (take 2 (efields (goalEmbed exampleOps (js ''2025-11-11'')
          (isoTimestamp exampleWorld) (presentStudents ?four ?ids) (absentStudents ?four ?ids)
          (length ?four))))
     = [js ''**1** students'', js ''**3** students'']"
    unfolding q [THEN c2, THEN c2, THEN c2, THEN c2, THEN c2, THEN c2, THEN c2, THEN conjunct1]
    by (simp only: n sh) (simp add: js_def)
  ultimately have "map (map fvalue \<circ> take 2 \<circ> efields) (concat (take 1 (posts
        (mainGoals exampleOps exampleWorld))))
     = [[js ''**1** students'', js ''**3** students'']]"
    by (simp add: example_today)
  with p1 p2 p3 s show ?thesis
    by (intro conjI)
qed

subsection \<open>The names of the absent\<close>

lemma absentField_value_length: "length (fvalue (absentField absent)) \<le> 1000"
  by (simp add: absentField_def js_def)

text \<open>
  C6. With an absent student, the fourth field of the goal report is \<open>Absent Students\<close>,
  and its value is the sorted names joined by comma and space when that string has at
  most 1000 characters, and otherwise its first 997 characters followed by three dots;
  the value never has more than 1000 characters. With no absent student the field is
  \<open>Perfect Attendance!\<close>. This field is the fourth of the report, the first message that a
  run posts when the students and the submissions have been fetched. The reflections
  reporter posts no names: its outcome depends on the users only through the number of
  students, so it is the same for any two user lists with equally many students.
\<close>

theorem absent_names_within_budget:
  fixes absent :: "student list"
  defines "names \<equiv> joinWith (js '', '') (sort (map st_name absent))"
  shows "(absent \<noteq> [] \<longrightarrow>
        fname (absentField absent) = [0xD83D, 0xDC65] @ js '' Absent Students''
      \<and> fvalue (absentField absent) =
          (if length names \<le> 1000 then names else take 997 names @ js ''...'')
      \<and> length (fvalue (absentField absent)) \<le> 1000)
    \<and> (absent = [] \<longrightarrow>
        absentField absent =
          \<lparr>fname = [0xD83C, 0xDF89] @ js '' Perfect Attendance!'',
           fvalue = js ''All students have submitted their goals today!'',
           inline = False\<rparr>)
    \<and> drop 3 (efields (goalEmbed fo todayDate isoNow present absent totalCount))
        = [absentField absent]
    \<and> (getAllStudents w = Inr allStudents \<and> allStudents \<noteq> []
        \<and> getStudentsWithGoalsToday w (getTodayDateIST (clock w)) = Inr ids \<longrightarrow>
        map (drop 3 \<circ> efields) (concat (take 1 (posts (mainGoals fo w))))
          = [[absentField (absentStudents allStudents ids)]])
    \<and> (length (filter (\<lambda>d. u_role d = Some (js ''student'')) us)
          = length (filter (\<lambda>d. u_role d = Some (js ''student'')) us') \<longrightarrow>
        mainReflections fo (w\<lparr>usersCollection := Inr us\<rparr>)
          = mainReflections fo (w\<lparr>usersCollection := Inr us'\<rparr>))"
proof (intro conjI impI)
  assume "absent \<noteq> []"
  then show "fname (absentField absent) = [0xD83D, 0xDC65] @ js '' Absent Students''"
    by (simp add: absentField_def)
  from \<open>absent \<noteq> []\<close>
  show "fvalue (absentField absent) =
          (if length names \<le> 1000 then names else take 997 names @ js ''...'')"
    by (simp add: absentField_def absentNames_def sortedAbsentNames_def names_def)
  show "length (fvalue (absentField absent)) \<le> 1000"
    by (rule absentField_value_length)
next
  assume "absent = []"
  then show "absentField absent =
          \<lparr>fname = [0xD83C, 0xDF89] @ js '' Perfect Attendance!'',
           fvalue = js ''All students have submitted their goals today!'',
           inline = False\<rparr>"
    by (simp add: absentField_def)
next
  show "drop 3 (efields (goalEmbed fo todayDate isoNow present absent totalCount))
        = [absentField absent]"
    by (simp add: goalEmbed_def Let_def)
next
  assume "getAllStudents w = Inr allStudents \<and> allStudents \<noteq> []
        \<and> getStudentsWithGoalsToday w (getTodayDateIST (clock w)) = Inr ids"
  then have "take 1 (posts (mainGoals fo w)) =
      [[goalEmbed fo (getTodayDateIST (clock w)) (isoTimestamp w)
          (presentStudents allStudents ids) (absentStudents allStudents ids)
          (length allStudents)]]"
    by (intro mainGoals_report) simp_all
  then show "map (drop 3 \<circ> efields) (concat (take 1 (posts (mainGoals fo w))))
          = [[absentField (absentStudents allStudents ids)]]"
    by (simp add: goalEmbed_def Let_def)
next
  assume n: "length (filter (\<lambda>d. u_role d = Some (js ''student'')) us)
          = length (filter (\<lambda>d. u_role d = Some (js ''student'')) us')"
  let ?w = "w\<lparr>usersCollection := Inr us\<rparr>" and ?w' = "w\<lparr>usersCollection := Inr us'\<rparr>"
  have q: "getStudentsWithReflectionsToday ?w d = getStudentsWithReflectionsToday ?w' d" for d
    by (simp add: getStudentsWithReflectionsToday_def getStudentsWithSubmissionsToday_def
        cong: option.case_cong)
  obtain xs xs' where xs: "getAllStudentsR ?w = Inr xs" "getAllStudentsR ?w' = Inr xs'"
    and l: "length xs = length xs'"
    using n by (simp add: getAllStudentsR_def)
  from l have e: "xs = [] \<longleftrightarrow> xs' = []" by auto
  have "tryReflections fo ?w = tryReflections fo ?w'"
    by (simp add: tryReflections_def xs q l e Let_def cong: sum.case_cong)
  moreover have "catchBlock t d ?w e p = catchBlock t d ?w' e p" for t d e p
    by (simp add: catchBlock_def)
  ultimately show "mainReflections fo ?w = mainReflections fo ?w'"
    by (simp add: mainReflections_def split: prod.splits sum.splits)
qed

theorem absent_names_within_budget_witness:
  "fvalue (absentField [mkStudent (js ''s3'') (js ''amit''), mkStudent (js ''s4'') (js ''Zoya''),
      mkStudent (js ''s2'') (js ''Asha'')]) = js ''Asha, Zoya, amit''
   \<and> length (fvalue (absentField [mkStudent (js ''s9'') (replicate 1001 120)])) = 1000
   \<and> fname (absentField []) = [0xD83C, 0xDF89] @ js '' Perfect Attendance!''
   \<and> mainReflections exampleOps (exampleWorld\<lparr>usersCollection := Inr exampleUsers\<rparr>)
     = mainReflections exampleOps (exampleWorld\<lparr>usersCollection :=
         Inr (map (\<lambda>d. d\<lparr>u_name := Some (js ''Someone'')\<rparr>) exampleUsers)\<rparr>)"
proof -
  let ?three = "[mkStudent (js ''s3'') (js ''amit''), mkStudent (js ''s4'') (js ''Zoya''),
      mkStudent (js ''s2'') (js ''Asha'')]"
  let ?long = "[mkStudent (js ''s9'') (replicate 1001 120)]"
  have j: "joinWith (js '', '') (sort (map st_name ?three)) = js ''Asha, Zoya, amit''"
    by code_simp
  have l: "joinWith (js '', '') (sort (map st_name ?long)) = replicate 1001 120"
    by (simp add: mkStudent_def)
  have n: "length (filter (\<lambda>d. u_role d = Some (js ''student'')) exampleUsers)
      = length (filter (\<lambda>d. u_role d = Some (js ''student''))
          (map (\<lambda>d. d\<lparr>u_name := Some (js ''Someone'')\<rparr>) exampleUsers))"
    by (simp add: exampleUsers_def)
  from absent_names_within_budget [where absent = ?three] j
  have "fvalue (absentField ?three) = js ''Asha, Zoya, amit''"
    by (simp add: js_def)
  moreover
  from absent_names_within_budget [where absent = ?long] l
  have "length (fvalue (absentField ?long)) = 1000"
    by (simp add: js_def)
  moreover
  from absent_names_within_budget [where absent = "[]"]
  have "fname (absentField []) = [0xD83C, 0xDF89] @ js '' Perfect Attendance!''"
    by simp
  moreover
  from absent_names_within_budget [where us = exampleUsers
      and us' = "map (\<lambda>d. d\<lparr>u_name := Some (js ''Someone'')\<rparr>) exampleUsers"
      and fo = exampleOps and w = exampleWorld] n
  have "mainReflections exampleOps (exampleWorld\<lparr>usersCollection := Inr exampleUsers\<rparr>)
     = mainReflections exampleOps (exampleWorld\<lparr>usersCollection :=
         Inr (map (\<lambda>d. d\<lparr>u_name := Some (js ''Someone'')\<rparr>) exampleUsers)\<rparr>)"
    by blast
  ultimately show ?thesis by simp
qed

subsection \<open>The range of today\<close>

text \<open>
  C4. The example run: today in India is 2025-11-11; Asha's goal was created at 00:30 of
  2025-11-11 in India (19:00 UTC of the day before); the range of the query starts at
  UTC midnight of 2025-11-11 and ends at 23:59:59 local time; the goal is not found, and
  the report lists Asha as absent.
\<close>

theorem goal_of_today_in_India_not_counted:
  "getTodayDateIST (clock exampleWorld) = js ''2025-11-11''
   \<and> exampleGoals ! 1 = \<lparr>student_id = Some (js ''s2''), created_at = Some 1762801200000\<rparr>
   \<and> getTodayDateIST 1762801200000 = js ''2025-11-11''
   \<and> dateFromString (tzOffset exampleWorld) (js ''2025-11-11'') = Some 1762819200000
   \<and> dateFromString (tzOffset exampleWorld) (js ''2025-11-11T23:59:59'') = Some 1762905599000
   \<and> getStudentsWithGoalsToday exampleWorld (js ''2025-11-11'') = Inr [js ''s1'']
   \<and> map (map fvalue \<circ> drop 3 \<circ> efields) (concat (snd (tryGoals exampleOps exampleWorld)))
       = [[js ''Asha, Zoya, amit'']]"
proof -
  have 1: "exampleGoals ! 1 = \<lparr>student_id = Some (js ''s2''), created_at = Some 1762801200000\<rparr>"
    by (simp add: exampleGoals_def)
  have 2: "getTodayDateIST 1762801200000 = js ''2025-11-11''"
    by code_simp
  have 3: "dateFromString (tzOffset exampleWorld) (js ''2025-11-11'') = Some 1762819200000"
    by code_simp
  have 4: "dateFromString (tzOffset exampleWorld) (js ''2025-11-11T23:59:59'')
      = Some 1762905599000"
    by code_simp
  have 5: "map (map fvalue \<circ> drop 3 \<circ> efields) (concat (snd (tryGoals exampleOps exampleWorld)))
       = [[js ''Asha, Zoya, amit'']]"
    apply (subst tryGoals_report(1) [OF example_students])
    apply simp
    apply (simp add: example_today example_goals_today)
    apply (simp only: concat.simps append_Nil2 list.map comp_def goalEmbed_absent_field)
    apply (simp only: example_absent example_absent_value)
    done
  from example_today 1 2 3 4 example_goals_today 5 show ?thesis
    by (intro conjI)
qed

end
